theory Spec2Isabelle
  imports Complex_Main "HOL-Library.Multiset"
begin

section \<open>Data model (src/types/index.ts, services/surprise-engine)\<close>

text \<open>
  Strings are lists of 8-bit characters; \<open>substring(0, n)\<close> is \<open>take n\<close>.
  A timestamp field holds the instant its ISO string denotes, in milliseconds since the
  epoch (what \<open>new Date(s).getTime()\<close> returns for a well-formed string); the
  optional fields \<open>audioUri\<close> and \<open>embedding\<close> of a Memory, which no modelled
  function reads, are left out.
\<close>

datatype MemoryType = Voice | Text | Conversation

record Memory =
  mem_id :: string
  mem_content :: string
  summary :: "string option"
  mem_type :: MemoryType
  tags :: "string list"
  connections :: "string list"
  roomId :: "string option"
  createdAt :: int
  updatedAt :: int
  userId :: string

record Room =
  room_id :: string
  room_name :: string
  room_icon :: string
  room_color :: string
  memoryCount :: nat
  room_userId :: string
  room_createdAt :: int

datatype Role = User | Assistant

record Message =
  msg_id :: string
  role :: Role
  msg_content :: string
  timestamp :: string

datatype SurpriseType =
  On_this_day | Connection | Idea_spark | Forgotten_gem | Pattern | Nudge | Mashup | Question

text \<open>The string literal each member of the union type \<open>SurpriseType\<close> is at run time.\<close>

fun typeName :: "SurpriseType \<Rightarrow> string" where
  "typeName On_this_day = ''on_this_day''"
| "typeName Connection = ''connection''"
| "typeName Idea_spark = ''idea_spark''"
| "typeName Forgotten_gem = ''forgotten_gem''"
| "typeName Pattern = ''pattern''"
| "typeName Nudge = ''nudge''"
| "typeName Mashup = ''mashup''"
| "typeName Question = ''question''"

record Surprise =
  s_id :: string
  s_type :: SurpriseType
  title :: string
  s_content :: string
  relatedMemoryIds :: "string list"
  icon :: string
  gradient :: "string \<times> string"
  s_createdAt :: string

fun SURPRISE_STYLES :: "SurpriseType \<Rightarrow> string \<times> (string \<times> string)" where
  "SURPRISE_STYLES On_this_day = (''calendar'', (''#6C3CE1'', ''#8B5CF6''))"
| "SURPRISE_STYLES Connection = (''git-merge'', (''#3B82F6'', ''#06B6D4''))"
| "SURPRISE_STYLES Idea_spark = (''flash'', (''#F59E0B'', ''#EF4444''))"
| "SURPRISE_STYLES Forgotten_gem = (''diamond'', (''#EC4899'', ''#8B5CF6''))"
| "SURPRISE_STYLES Pattern = (''analytics'', (''#10B981'', ''#3B82F6''))"
| "SURPRISE_STYLES Nudge = (''hand-left'', (''#F59E0B'', ''#10B981''))"
| "SURPRISE_STYLES Mashup = (''shuffle'', (''#EF4444'', ''#6C3CE1''))"
| "SURPRISE_STYLES Question = (''help-circle'', (''#06B6D4'', ''#3B82F6''))"

datatype error = Error string | TypeError | SyntaxError

text \<open>The values \<open>JSON.parse\<close> can return; \<open>undefined\<close> is \<open>None\<close> of \<open>json option\<close>.\<close>

datatype json =
  JNull | JBool bool | JNum real | JStr string | JArr "json list" | JObj "(string \<times> json) list"

section \<open>The outside world of one call\<close>

text \<open>
  \<open>Math.random()\<close> returns a number in the half-open interval from 0 to 1; a value of
  type \<open>rnd\<close> is one such outcome, and \<open>randIndex r n\<close> is
  \<open>Math.floor(Math.random() * n)\<close> for the outcome \<open>r\<close>.
\<close>

typedef rnd = "{r::real. 0 \<le> r \<and> r < 1}"
  by (rule exI[of _ 0]) simp

setup_lifting type_definition_rnd

lift_definition randIndex :: "rnd \<Rightarrow> nat \<Rightarrow> nat" is "\<lambda>r n. nat \<lfloor>r * real n\<rfloor>" .

lift_definition rndZero :: rnd is 0
  by simp

text \<open>
  \<open>xs.sort(() => Math.random() - 0.5)\<close> rearranges \<open>xs\<close>; which arrangement comes out
  depends on the engine's sorting algorithm and on the coin flips. The model takes the
  arrangement from an oracle \<open>ks\<close>: the element at position \<open>k mod length\<close> is moved
  to the front, and so on with the rest. Every result is a permutation of \<open>xs\<close>, and
  every permutation is the result for some \<open>ks\<close> (lemmas \<open>mset_shuffleBy\<close>,
  \<open>shuffleBy_complete\<close>).
\<close>

fun shuffleBy :: "nat list \<Rightarrow> 'a list \<Rightarrow> 'a list" where
  "shuffleBy ks [] = []"
| "shuffleBy [] (x # xs) = x # xs"
| "shuffleBy (k # ks) (x # xs) =
     (let i = k mod length (x # xs)
      in (x # xs) ! i # shuffleBy ks (take i (x # xs) @ drop (Suc i) (x # xs)))"

text \<open>
  Everything one call reads from outside its arguments: the clock, the device's time
  zone (the offset of local time from UTC, in milliseconds, at an instant), the API key,
  the outcome of the HTTP request behind \<open>AIService.chat\<close> (an error for a network
  failure or a non-2xx status, else the text of the reply), the result of
  \<open>JSON.parse\<close> (\<open>None\<close> for a SyntaxError), the strings \<open>generateId()\<close> and
  \<open>new Date().toISOString()\<close> return, and one oracle for each place that draws random
  numbers. The clock does not advance during a call.
\<close>

record world =
  now :: int
  zone :: "int \<Rightarrow> int"
  apiKey :: string
  gateway :: "(Role \<times> string) list \<Rightarrow> string option \<Rightarrow> error + string"
  jsonParse :: "string \<Rightarrow> json option"
  freshId :: "SurpriseType \<Rightarrow> string"
  memoryId :: string
  isoNow :: string
  genOrder :: "nat list"
  mashOrder :: "nat list"
  connOrder :: "nat list"
  rndOnThisDay :: rnd
  rndGem :: rnd
  rndTag1 :: rnd
  rndTag2 :: rnd
  rndTag3 :: rnd
  rndQuestion :: rnd
  rndEncourage :: rnd

section \<open>Helpers of the runtime\<close>

definition isSpace :: "char \<Rightarrow> bool" where
  "isSpace c = (c \<in> set [CHR 0x20, CHR 0x09, CHR 0x0A, CHR 0x0B, CHR 0x0C, CHR 0x0D, CHR 0xA0])"

definition trim :: "string \<Rightarrow> string" where
  "trim s = rev (dropWhile isSpace (rev (dropWhile isSpace s)))"

text \<open>Only the letters A to Z have a lower-case form in the model.\<close>

definition lowerChar :: "char \<Rightarrow> char" where
  "lowerChar c =
     (case map_of (zip ''ABCDEFGHIJKLMNOPQRSTUVWXYZ'' ''abcdefghijklmnopqrstuvwxyz'') c of
        None \<Rightarrow> c | Some l \<Rightarrow> l)"

definition toLowerCase :: "string \<Rightarrow> string" where
  "toLowerCase s = map lowerChar s"

fun isPrefixOf :: "string \<Rightarrow> string \<Rightarrow> bool" where
  "isPrefixOf [] ys = True"
| "isPrefixOf (x # xs) [] = False"
| "isPrefixOf (x # xs) (y # ys) = (x = y \<and> isPrefixOf xs ys)"

fun includesStr :: "string \<Rightarrow> string \<Rightarrow> bool" where
  "includesStr [] needle = isPrefixOf needle []"
| "includesStr (c # cs) needle = (isPrefixOf needle (c # cs) \<or> includesStr cs needle)"

fun showNat :: "nat \<Rightarrow> string" where
  "showNat n =
     (if n < 10 then [''0123456789'' ! n]
      else showNat (n div 10) @ [''0123456789'' ! (n mod 10)])"

declare showNat.simps [simp del]

definition showInt :: "int \<Rightarrow> string" where
  "showInt i = (if i < 0 then CHR ''-'' # showNat (nat (- i)) else showNat (nat i))"

fun joinWith :: "string \<Rightarrow> string list \<Rightarrow> string" where
  "joinWith sep [] = []"
| "joinWith sep [x] = x"
| "joinWith sep (x # y # ys) = x @ sep @ joinWith sep (y # ys)"

text \<open>\<open>a || b\<close> on an optional string: the empty string and \<open>undefined\<close> are falsy.\<close>

definition orElse :: "string option \<Rightarrow> string \<Rightarrow> string" where
  "orElse a b = (case a of None \<Rightarrow> b | Some s \<Rightarrow> if s = [] then b else s)"

text \<open>\<open>Math.round(a / b)\<close> for \<open>a \<ge> 0\<close> and \<open>b > 0\<close>: halves round up.\<close>

definition roundDiv :: "int \<Rightarrow> int \<Rightarrow> int" where
  "roundDiv a b = (2 * a + b) div (2 * b)"

text \<open>
  A \<open>Map<string, number>\<close> and a \<open>Set<string>\<close> keep their keys in the order of first
  insertion: an association list and a list.
\<close>

fun bump :: "string \<Rightarrow> (string \<times> nat) list \<Rightarrow> (string \<times> nat) list" where
  "bump k [] = [(k, 1)]"
| "bump k ((k', c) # rest) = (if k = k' then (k', c + 1) # rest else (k', c) # bump k rest)"

definition setAdd :: "string \<Rightarrow> string list \<Rightarrow> string list" where
  "setAdd x xs = (if x \<in> set xs then xs else xs @ [x])"

fun maxList :: "int list \<Rightarrow> int" where
  "maxList [] = 0"
| "maxList [x] = x"
| "maxList (x # y # ys) = max x (maxList (y # ys))"

subsection \<open>Dates\<close>

text \<open>
  \<open>getDate()\<close> and \<open>getMonth()\<close> read an instant in local time, in the proleptic
  Gregorian calendar: \<open>civilFromDays\<close> turns a count of days since 1970-01-01 into
  year, month (1 to 12) and day of the month.
\<close>

definition civilFromDays :: "int \<Rightarrow> int \<times> int \<times> int" where
  "civilFromDays z0 =
     (let z = z0 + 719468;
          era = z div 146097;
          doe = z mod 146097;
          yoe = (doe - doe div 1460 + doe div 36524 - doe div 146096) div 365;
          doy = doe - (365 * yoe + yoe div 4 - yoe div 100);
          mp = (5 * doy + 2) div 153;
          d = doy - (153 * mp + 2) div 5 + 1;
          m = (if mp < 10 then mp + 3 else mp - 9);
          y = yoe + era * 400
      in (if m \<le> 2 then y + 1 else y, m, d))"

definition getDate :: "(int \<Rightarrow> int) \<Rightarrow> int \<Rightarrow> int" where
  "getDate z t = snd (snd (civilFromDays ((t + z t) div 86400000)))"

definition getMonth :: "(int \<Rightarrow> int) \<Rightarrow> int \<Rightarrow> int" where
  "getMonth z t = fst (snd (civilFromDays ((t + z t) div 86400000))) - 1"

definition daysBetween :: "int \<Rightarrow> int \<Rightarrow> int" where
  "daysBetween d1 d2 = \<bar>d1 - d2\<bar> div (1000 * 60 * 60 * 24)"

definition sameDay :: "(int \<Rightarrow> int) \<Rightarrow> int \<Rightarrow> int \<Rightarrow> bool" where
  "sameDay z d1 d2 = (getDate z d1 = getDate z d2 \<and> getMonth z d1 = getMonth z d2)"

section \<open>The surprise engine (services/surprise-engine)\<close>

definition makeSurprise ::
  "world \<Rightarrow> SurpriseType \<Rightarrow> string \<Rightarrow> string \<Rightarrow> string list \<Rightarrow> Surprise" where
  "makeSurprise w ty t c ids =
     (let style = SURPRISE_STYLES ty
      in \<lparr>s_id = freshId w ty, s_type = ty, title = t, s_content = c,
          relatedMemoryIds = ids, icon = fst style, gradient = snd style,
          s_createdAt = isoNow w\<rparr>)"

definition pickRandom :: "rnd \<Rightarrow> 'a list \<Rightarrow> 'a option" where
  "pickRandom r arr = (if length arr = 0 then None else Some (arr ! randIndex r (length arr)))"

definition headOpt :: "'a list \<Rightarrow> 'a option" where
  "headOpt xs = (case xs of [] \<Rightarrow> None | x # _ \<Rightarrow> Some x)"

subsection \<open>The rule-based generators\<close>

definition onThisDayMatches :: "world \<Rightarrow> Memory list \<Rightarrow> Memory list" where
  "onThisDayMatches w memories =
     filter (\<lambda>m. sameDay (zone w) (createdAt m) (now w) \<and> daysBetween (createdAt m) (now w) \<ge> 7)
       memories"

definition findOnThisDay :: "world \<Rightarrow> Memory list \<Rightarrow> Surprise option" where
  "findOnThisDay w memories =
     (let matches = onThisDayMatches w memories in
      if length matches = 0 then None
      else
        let memory = matches ! randIndex (rndOnThisDay w) (length matches);
            weeksAgo = roundDiv (daysBetween (createdAt memory) (now w)) 7;
            timeLabel =
              (if weeksAgo \<ge> 4
               then showInt (roundDiv weeksAgo 4) @ '' month''
                      @ (if roundDiv weeksAgo 4 > 1 then ''s'' else []) @ '' ago''
               else showInt weeksAgo @ '' week'' @ (if weeksAgo > 1 then ''s'' else []) @ '' ago'')
        in Some (makeSurprise w On_this_day (''On This Day ('' @ timeLabel @ '')'')
                   (orElse (summary memory) (take 120 (mem_content memory) @ ''...''))
                   [mem_id memory]))"

definition findForgottenGem :: "world \<Rightarrow> Memory list \<Rightarrow> Surprise option" where
  \<open>findForgottenGem w memories =
     (if length memories < 5 then None
      else
        let oldMemories =
              sort_key createdAt (filter (\<lambda>m. daysBetween (createdAt m) (now w) > 14) memories)
        in if length oldMemories = 0 then None
           else
             let pool = take (max 1 (length oldMemories div 3)) oldMemories;
                 memory = pool ! randIndex (rndGem w) (length pool)
             in Some (makeSurprise w Forgotten_gem ''Forgotten Gem''
                        (''You thought about this a while back: "''
                           @ take 100 (orElse (summary memory) (mem_content memory))
                           @ ''..." - still relevant?'')
                        [mem_id memory]))\<close>

definition findPattern :: "world \<Rightarrow> Memory list \<Rightarrow> Surprise option" where
  \<open>findPattern w memories =
     (if length memories < 3 then None
      else
        let recentMemories = take 20 memories;
            tagCounts = fold (\<lambda>m acc. fold bump (tags m) acc) recentMemories [];
            topTags = sort_key (\<lambda>e. - int (snd e)) (filter (\<lambda>e. snd e \<ge> 3) tagCounts)
        in case topTags of
             [] \<Rightarrow> None
           | (tag, cnt) # _ \<Rightarrow>
               let relatedIds =
                     map mem_id (take 3 (filter (\<lambda>m. tag \<in> set (tags m)) recentMemories))
               in Some (makeSurprise w Pattern ''Thinking Pattern''
                          (''"'' @ tag @ ''" keeps coming up in your thoughts ('' @ showNat cnt
                             @ '' times recently). Seems like something important to you.'')
                          relatedIds))\<close>

definition generateNudge :: "world \<Rightarrow> Memory list \<Rightarrow> Room list \<Rightarrow> Surprise option" where
  \<open>generateNudge w memories rooms =
     (if length rooms = 0 then None
      else
        let roomActivity =
              map (\<lambda>room.
                     let roomMemories = filter (\<lambda>m. roomId m = Some (room_id room)) memories;
                         lastActivity =
                           (if length roomMemories > 0 then maxList (map createdAt roomMemories)
                            else 0)
                     in (room, length roomMemories, lastActivity))
                rooms;
            neglected =
              sort_key (\<lambda>r. snd (snd r))
                (filter (\<lambda>r. fst (snd r) > 0 \<and> daysBetween (snd (snd r)) (now w) > 7) roomActivity)
        in case neglected of
             [] \<Rightarrow> None
           | (room, memCount, lastActivity) # _ \<Rightarrow>
               let daysAgo = daysBetween lastActivity (now w)
               in Some (makeSurprise w Nudge ''Missing You''
                          (''Your "'' @ room_name room @ ''" room has '' @ showNat memCount
                             @ '' memories but hasn't seen you in '' @ showInt daysAgo
                             @ '' days. Any new thoughts?'')
                          []))\<close>

definition generateMashup :: "world \<Rightarrow> Memory list \<Rightarrow> Surprise option" where
  \<open>generateMashup w memories =
     (if length memories < 4 then None
      else
        let shuffled = shuffleBy (mashOrder w) memories;
            m1 = shuffled ! 0;
            m2 = (case find (\<lambda>m. mem_id m \<noteq> mem_id m1 \<and> roomId m \<noteq> roomId m1
                                  \<and> \<not> list_ex (\<lambda>t. t \<in> set (tags m1)) (tags m)) shuffled of
                    Some m \<Rightarrow> m
                  | None \<Rightarrow> shuffled ! 1);
            topic1 = orElse (headOpt (tags m1)) ''idea'';
            topic2 = orElse (headOpt (tags m2)) ''thought''
        in Some (makeSurprise w Mashup ''Idea Mashup''
                   (''What if you combined "'' @ topic1 @ ''" with "'' @ topic2
                      @ ''"? Sometimes the best ideas come from unexpected connections.'')
                   [mem_id m1, mem_id m2]))\<close>

definition generateQuestion :: "world \<Rightarrow> Memory list \<Rightarrow> Surprise option" where
  \<open>generateQuestion w memories =
     (if length memories = 0 then None
      else
        let recentTags = fold (\<lambda>m acc. fold setAdd (tags m) acc) (take 10 memories) [];
            questions =
              [''What's one thing about ''
                 @ orElse (pickRandom (rndTag1 w) recentTags) ''your recent thinking''
                 @ '' that you haven't explored yet?'',
               ''If you could only keep 3 of your recent ideas, which would they be?'',
               ''What would your past self from a month ago think about your current focus?'',
               ''Is there someone you should share your "''
                 @ orElse (pickRandom (rndTag2 w) recentTags) ''latest'' @ ''" thoughts with?'',
               ''What's the boldest next step you could take on your recent ideas?'',
               ''What assumption are you making about "''
                 @ orElse (pickRandom (rndTag3 w) recentTags) ''things''
                 @ ''" that might be wrong?'',
               ''If you had unlimited resources, how would you act on your recent thoughts?''];
            question = questions ! randIndex (rndQuestion w) (length questions)
        in Some (makeSurprise w Question ''Think About This'' question
                   (map mem_id (take 2 memories))))\<close>

subsection \<open>The gateway (services/ai.ts) and the two generators that call it\<close>

definition isConfigured :: "world \<Rightarrow> bool" where
  "isConfigured w = (apiKey w \<noteq> [] \<and> trim (apiKey w) \<noteq> [])"

definition chat :: "world \<Rightarrow> Message list \<Rightarrow> string option \<Rightarrow> error + string" where
  "chat w messages systemPrompt =
     (if \<not> isConfigured w
      then Inl (Error (''Anthropic API key not configured. ''
                         @ ''Please add EXPO_PUBLIC_ANTHROPIC_API_KEY to your .env file.''))
      else gateway w (map (\<lambda>msg. (role msg, msg_content msg)) messages)
             (case systemPrompt of
                None \<Rightarrow> None
              | Some p \<Rightarrow> if p = [] then None else Some p))"

definition connectionPrompt :: string where
  "connectionPrompt =
     ''You find surprising, insightful connections between ideas. Given two memories, ''
     @ ''find one unexpected but meaningful connection in 1-2 sentences. ''
     @ ''Be specific and creative. Don't be generic.''"

definition generateAIConnection :: "world \<Rightarrow> Memory list \<Rightarrow> error + Surprise option" where
  "generateAIConnection w memories =
     (if length memories < 3 then Inr None
      else
        let shuffled = shuffleBy (connOrder w) memories;
            m1 = shuffled ! 0;
            m2 = (case find (\<lambda>m. mem_id m \<noteq> mem_id m1
                                  \<and> \<not> list_ex (\<lambda>t. t \<in> set (tags m1)) (tags m)) shuffled of
                    Some m \<Rightarrow> m
                  | None \<Rightarrow> shuffled ! 1);
            messages =
              [\<lparr>msg_id = ''conn'', role = User,
                msg_content =
                  ''Memory 1: '' @ take 200 (mem_content m1) @ [CHR 0x0A, CHR 0x0A]
                    @ ''Memory 2: '' @ take 200 (mem_content m2) @ [CHR 0x0A, CHR 0x0A]
                    @ ''What's a surprising connection between these?'',
                timestamp = isoNow w\<rparr>]
        in case chat w messages (Some connectionPrompt) of
             Inl e \<Rightarrow> Inl e
           | Inr response \<Rightarrow>
               Inr (Some (makeSurprise w Connection ''Hidden Connection'' (take 200 response)
                            [mem_id m1, mem_id m2])))"

fun indexOf :: "'a list \<Rightarrow> 'a \<Rightarrow> nat" where
  "indexOf [] v = 0"
| "indexOf (x # xs) v = (if x = v then 0 else Suc (indexOf xs v))"

definition ideaSparkPrompt :: string where
  "ideaSparkPrompt =
     ''You're a creative thinking partner. Given a person's recent interests, suggest ONE ''
     @ ''fun, actionable idea they could explore. Be specific and exciting. 1-2 sentences max.''"

definition generateAIIdeaSpark :: "world \<Rightarrow> Memory list \<Rightarrow> error + Surprise option" where
  "generateAIIdeaSpark w memories =
     (if length memories < 2 then Inr None
      else
        let a = concat (map tags (take 10 memories));
            recentTopics = take 5 (map snd (filter (\<lambda>(i, v). indexOf a v = i) (enumerate 0 a)))
        in if length recentTopics = 0 then Inr None
           else
             let messages =
                   [\<lparr>msg_id = ''spark'', role = User,
                     msg_content =
                       ''My recent interests: '' @ joinWith '', '' recentTopics
                         @ ''. Give me one exciting idea to explore.'',
                     timestamp = isoNow w\<rparr>]
             in case chat w messages (Some ideaSparkPrompt) of
                  Inl e \<Rightarrow> Inl e
                | Inr response \<Rightarrow>
                    Inr (Some (makeSurprise w Idea_spark ''Idea Spark'' (take 200 response)
                                 (map mem_id (take 2 memories)))))"

subsection \<open>Fallbacks\<close>

definition generateRandomEncouragement :: "world \<Rightarrow> Memory list \<Rightarrow> Surprise" where
  "generateRandomEncouragement w memories =
     (let count = length memories;
          messages =
            [''You've captured '' @ showNat count
               @ '' memories so far. Each one is a piece of your thinking. Keep going!'',
             ''Your memory palace is growing. The more you add, ''
               @ ''the more surprising connections I can find.'',
             ''Talk to me about what's on your mind - ''
               @ ''I'll remember it and surprise you with insights later.'']
      in makeSurprise w Idea_spark ''Keep Talking''
           (messages ! randIndex (rndEncourage w) (length messages)) [])"

definition generateWelcomeSurprise :: "world \<Rightarrow> Surprise" where
  "generateWelcomeSurprise w =
     makeSurprise w Idea_spark ''Welcome to Your Memory Palace''
       (''Start by talking to me about anything - an idea, a thought, a dream. ''
          @ ''I'll remember everything and surprise you with connections you never expected.'')
       []"

subsection \<open>The orchestrator\<close>

text \<open>
  The closures of the generator array, by name. \<open>invoke\<close> runs one of them; a rejected
  promise or a thrown error is \<open>Inl\<close>, \<open>null\<close> is \<open>Inr None\<close>.
\<close>

datatype generator =
  FindOnThisDay | FindForgottenGem | FindPattern | GenerateNudge | GenerateMashup
  | GenerateQuestion | GenerateAIConnection | GenerateAIIdeaSpark

fun invoke :: "world \<Rightarrow> Memory list \<Rightarrow> Room list \<Rightarrow> generator \<Rightarrow> error + Surprise option" where
  "invoke w memories rooms FindOnThisDay = Inr (findOnThisDay w memories)"
| "invoke w memories rooms FindForgottenGem = Inr (findForgottenGem w memories)"
| "invoke w memories rooms FindPattern = Inr (findPattern w memories)"
| "invoke w memories rooms GenerateNudge = Inr (generateNudge w memories rooms)"
| "invoke w memories rooms GenerateMashup = Inr (generateMashup w memories)"
| "invoke w memories rooms GenerateQuestion = Inr (generateQuestion w memories)"
| "invoke w memories rooms GenerateAIConnection = generateAIConnection w memories"
| "invoke w memories rooms GenerateAIIdeaSpark = generateAIIdeaSpark w memories"

text \<open>
  The \<open>for\<close> loop over the shuffled generators, for any behaviour \<open>run\<close> of the
  generators. The state is the batch so far and, as a record of what happened, the
  generators invoked so far. \<open>count\<close> is an integer, as the interface documents it.
\<close>

fun collect ::
  "(generator \<Rightarrow> error + Surprise option) \<Rightarrow> int \<Rightarrow> generator list
     \<Rightarrow> Surprise list \<times> generator list \<Rightarrow> Surprise list \<times> generator list" where
  "collect run count' [] (surprises, calls) = (surprises, calls)"
| "collect run count' (gen # rest) (surprises, calls) =
     (if int (length surprises) \<ge> count' then (surprises, calls)
      else case run gen of
             Inl e \<Rightarrow> collect run count' rest (surprises, calls @ [gen])
           | Inr None \<Rightarrow> collect run count' rest (surprises, calls @ [gen])
           | Inr (Some surprise) \<Rightarrow> collect run count' rest (surprises @ [surprise], calls @ [gen]))"

definition generateSurprisesTraced ::
  "(generator \<Rightarrow> error + Surprise option) \<Rightarrow> world \<Rightarrow> Memory list \<Rightarrow> Room list \<Rightarrow> int
     \<Rightarrow> Surprise list \<times> generator list" where
  "generateSurprisesTraced run w memories rooms count' =
     (if length memories = 0 then ([generateWelcomeSurprise w], [])
      else
        let generators =
              [FindOnThisDay, FindForgottenGem, FindPattern, GenerateNudge, GenerateMashup,
               GenerateQuestion]
              @ (if isConfigured w then [GenerateAIConnection, GenerateAIIdeaSpark] else []);
            shuffled = shuffleBy (genOrder w) generators;
            (surprises, calls) = collect run count' shuffled ([], [])
        in (if length surprises = 0 then surprises @ [generateRandomEncouragement w memories]
            else surprises,
            calls))"

text \<open>The batch \<open>generateSurprises\<close> returns when the generators behave as \<open>run\<close>.\<close>

definition generateSurprisesWith ::
  "(generator \<Rightarrow> error + Surprise option) \<Rightarrow> world \<Rightarrow> Memory list \<Rightarrow> Room list \<Rightarrow> int
     \<Rightarrow> Surprise list" where
  "generateSurprisesWith run w memories rooms count' =
     fst (generateSurprisesTraced run w memories rooms count')"

definition generateSurprises :: "world \<Rightarrow> Memory list \<Rightarrow> Room list \<Rightarrow> int \<Rightarrow> Surprise list" where
  "generateSurprises w memories rooms count' =
     generateSurprisesWith (invoke w memories rooms) w memories rooms count'"

text \<open>The generators one call of \<open>generateSurprises\<close> invokes, in order.\<close>

definition generatorsInvoked :: "world \<Rightarrow> Memory list \<Rightarrow> Room list \<Rightarrow> int \<Rightarrow> generator list" where
  "generatorsInvoked w memories rooms count' =
     snd (generateSurprisesTraced (invoke w memories rooms) w memories rooms count')"

section \<open>Classification of a captured text (screens/TalkScreen, services/ai.ts)\<close>

text \<open>\<open>text.split(/\s+/)\<close>: the pieces between maximal runs of white space.\<close>

function splitSpaces :: "string \<Rightarrow> string \<Rightarrow> string list" where
  "splitSpaces cur [] = [cur]"
| "splitSpaces cur (c # cs) =
     (if isSpace c then cur # splitSpaces [] (dropWhile isSpace cs)
      else splitSpaces (cur @ [c]) cs)"
  by pat_completeness auto
termination
  by (relation "measure (\<lambda>(cur, s). length s)")
     (auto simp: length_dropWhile_le less_Suc_eq_le)

definition stopWords :: "string list" where
  "stopWords =
     [''the'', ''a'', ''an'', ''is'', ''are'', ''was'', ''were'', ''be'', ''been'', ''being'',
      ''have'', ''has'', ''had'', ''do'', ''does'', ''did'', ''will'', ''would'', ''could'',
      ''should'', ''may'', ''might'', ''can'', ''shall'', ''to'', ''of'', ''in'', ''for'', ''on'',
      ''with'', ''at'', ''by'', ''from'', ''it'', ''this'', ''that'', ''i'', ''me'', ''my'', ''we'',
      ''our'', ''you'', ''your'', ''he'', ''she'', ''they'', ''them'', ''and'', ''or'', ''but'',
      ''not'', ''so'', ''if'', ''about'', ''just'', ''also'', ''then'', ''than'', ''very'',
      ''really'', ''think'', ''like'', ''want'', ''know'']"

definition isLowerLetter :: "char \<Rightarrow> bool" where
  "isLowerLetter c = (c \<in> set ''abcdefghijklmnopqrstuvwxyz'')"

definition countWord :: "string \<Rightarrow> (string \<times> nat) list \<Rightarrow> (string \<times> nat) list" where
  "countWord w wordCounts =
     (let clean = filter isLowerLetter w
      in if length clean > 3 \<and> clean \<notin> set stopWords then bump clean wordCounts
         else wordCounts)"

definition extractBasicTags :: "string \<Rightarrow> string list" where
  "extractBasicTags text =
     (let words = splitSpaces [] (toLowerCase text);
          wordCounts = fold countWord words []
      in map fst (take 4 (sort_key (\<lambda>e. - int (snd e)) wordCounts)))"

definition analysisPrompt :: string where
  \<open>analysisPrompt =
     ''You are a memory analysis assistant. Given a piece of text (a transcribed voice note, ''
     @ ''written note, or conversation excerpt), extract:'' @ [CHR 0x0A]
     @ ''1. tags: 3-5 relevant topic tags (lowercase, single words or short phrases)'' @ [CHR 0x0A]
     @ ''2. summary: A concise 1-2 sentence summary'' @ [CHR 0x0A]
     @ ''3. suggestedRoom: A suggested category room name (e.g., "Work & Projects", ''
     @ ''"Ideas Lab", "Learning", "Personal")'' @ [CHR 0x0A, CHR 0x0A]
     @ ''Respond in JSON format only: {"tags": [...], "summary": "...", "suggestedRoom": "..."}''\<close>

text \<open>
  \<open>analyzeMemory\<close> returns whatever value the reply parses to; only a reply that is not
  JSON is replaced by the object with no tags and the truncated content.
\<close>

definition analysisMessages :: "world \<Rightarrow> string \<Rightarrow> Message list" where
  "analysisMessages w content =
     [\<lparr>msg_id = ''analysis'', role = User,
       msg_content = ''Analyze this memory:'' @ [CHR 0x0A, CHR 0x0A] @ content,
       timestamp = isoNow w\<rparr>]"

definition analyzeMemory :: "world \<Rightarrow> string \<Rightarrow> error + json" where
  "analyzeMemory w content =
     (let messages = analysisMessages w content
      in case chat w messages (Some analysisPrompt) of
           Inl e \<Rightarrow> Inl e
         | Inr response \<Rightarrow>
             (case jsonParse w response of
                Some v \<Rightarrow> Inr v
              | None \<Rightarrow>
                  Inr (JObj [(''tags'', JArr []),
                             (''summary'',
                              JStr (take 100 content
                                      @ (if length content > 100 then ''...'' else [])))])))"

text \<open>
  Reading the property \<open>k\<close> (one of \<open>tags\<close>, \<open>summary\<close>, \<open>suggestedRoom\<close>) of a
  parsed value: a TypeError on \<open>null\<close>, the member of an object, \<open>undefined\<close> on
  anything else. The keys of a parsed object are distinct.
\<close>

fun getProp :: "json \<Rightarrow> string \<Rightarrow> error + json option" where
  "getProp JNull k = Inl TypeError"
| "getProp (JObj kvs) k = Inr (map_of kvs k)"
| "getProp v k = Inr None"

fun truthy :: "json option \<Rightarrow> bool" where
  "truthy None = False"
| "truthy (Some JNull) = False"
| "truthy (Some (JBool b)) = b"
| "truthy (Some (JNum r)) = (r \<noteq> 0)"
| "truthy (Some (JStr s)) = (s \<noteq> [])"
| "truthy (Some (JArr vs)) = True"
| "truthy (Some (JObj kvs)) = True"

fun isArray :: "json option \<Rightarrow> bool" where
  "isArray (Some (JArr vs)) = True"
| "isArray v = False"

fun isString :: "json option \<Rightarrow> bool" where
  "isString (Some (JStr s)) = True"
| "isString v = False"

text \<open>The strings among the elements of a tags value.\<close>

fun tagStrings :: "json option \<Rightarrow> string list" where
  "tagStrings (Some (JArr vs)) = concat (map (\<lambda>v. case v of JStr s \<Rightarrow> [s] | _ \<Rightarrow> []) vs)"
| "tagStrings v = []"

text \<open>
  The three assignments inside the inner \<open>try\<close> of \<open>saveAsMemory\<close>: a rejection of
  \<open>analyzeMemory\<close> or a TypeError on \<open>analysis.tags\<close> leaves the three variables as
  they were.
\<close>

definition readAnalysis :: "world \<Rightarrow> string \<Rightarrow> error + (json option \<times> json option \<times> json option)" where
  "readAnalysis w text =
     (case analyzeMemory w text of
        Inl e \<Rightarrow> Inl e
      | Inr analysis \<Rightarrow>
          (case getProp analysis ''tags'' of
             Inl e \<Rightarrow> Inl e
           | Inr tags' \<Rightarrow>
               (case getProp analysis ''summary'' of
                  Inl e \<Rightarrow> Inl e
                | Inr summary' \<Rightarrow>
                    (case getProp analysis ''suggestedRoom'' of
                       Inl e \<Rightarrow> Inl e
                     | Inr suggestedRoom \<Rightarrow> Inr (tags', summary', suggestedRoom)))))"

text \<open>
  \<open>state.rooms.find((r) => r.name.toLowerCase().includes(suggestedRoom.toLowerCase()))\<close>:
  the callback runs on each room in turn, and calling \<open>toLowerCase\<close> on a value that is
  not a string is a TypeError.
\<close>

fun findRoom :: "Room list \<Rightarrow> json option \<Rightarrow> error + Room option" where
  "findRoom [] suggestedRoom = Inr None"
| "findRoom (r # rs) (Some (JStr s)) =
     (if includesStr (toLowerCase (room_name r)) (toLowerCase s) then Inr (Some r)
      else findRoom rs (Some (JStr s)))"
| "findRoom (r # rs) v = Inl TypeError"

record Classified =
  c_tags :: "json option"
  c_summary :: "json option"
  c_roomId :: "string option"

text \<open>
  \<open>saveAsMemory\<close> up to the point where the Memory is built: the tags, the summary and
  the room, or the error that reaches the outer \<open>catch\<close>.
\<close>

definition classify :: "world \<Rightarrow> Room list \<Rightarrow> string \<Rightarrow> error + Classified" where
  "classify w rooms text =
     (let (tags', summary', suggestedRoom) =
            (if isConfigured w then
               (case readAnalysis w text of
                  Inr r \<Rightarrow> r
                | Inl e \<Rightarrow> (Some (JArr (map JStr (extractBasicTags text))), None, None))
             else (Some (JArr (map JStr (extractBasicTags text))), None, None))
      in if truthy suggestedRoom then
           (case findRoom rooms suggestedRoom of
              Inl e \<Rightarrow> Inl e
            | Inr matchingRoom \<Rightarrow>
                Inr \<lparr>c_tags = tags', c_summary = summary',
                     c_roomId = map_option room_id matchingRoom\<rparr>)
         else Inr \<lparr>c_tags = tags', c_summary = summary', c_roomId = None\<rparr>)"

record NewMemory =
  n_id :: string
  n_content :: string
  n_summary :: "json option"
  n_type :: MemoryType
  n_tags :: "json option"
  n_connections :: "string list"
  n_roomId :: "string option"
  n_createdAt :: string
  n_updatedAt :: string
  n_userId :: string

text \<open>
  \<open>saveAsMemory\<close>: the Memory it dispatches to the store, or \<open>None\<close> when the outer
  \<open>catch\<close> logged an error and nothing was stored. It returns normally either way.
\<close>

definition saveAsMemory ::
  "world \<Rightarrow> Room list \<Rightarrow> string option \<Rightarrow> string \<Rightarrow> bool \<Rightarrow> NewMemory option" where
  "saveAsMemory w rooms stateUserId text isVoice =
     (case classify w rooms text of
        Inl e \<Rightarrow> None
      | Inr c \<Rightarrow>
          Some \<lparr>n_id = memoryId w, n_content = text, n_summary = c_summary c,
                n_type = (if isVoice then Voice else Conversation), n_tags = c_tags c,
                n_connections = [], n_roomId = c_roomId c, n_createdAt = isoNow w,
                n_updatedAt = isoNow w, n_userId = orElse stateUserId ''local''\<rparr>)"

text \<open>A generator that throws, seen as one that returns \<open>null\<close>.\<close>

definition quiet ::
  "(generator \<Rightarrow> error + Surprise option) \<Rightarrow> generator \<Rightarrow> error + Surprise option" where
  "quiet run g = (case run g of Inl e \<Rightarrow> Inr None | Inr r \<Rightarrow> Inr r)"

text \<open>The tag strings one classification yields (none when the outer \<open>catch\<close> fired).\<close>

definition classifiedTags :: "world \<Rightarrow> Room list \<Rightarrow> string \<Rightarrow> string list" where
  "classifiedTags w rooms text =
     (case classify w rooms text of Inl e \<Rightarrow> [] | Inr c \<Rightarrow> tagStrings (c_tags c))"

section \<open>Sample worlds and memories\<close>

text \<open>
  The clock of the samples reads 2024-03-15T12:00:00Z, in a UTC time zone. In
  \<open>offlineWorld\<close> no API key is set; in \<open>failingWorld\<close> the key is set, every
  request fails, and the shuffle puts the connection generator first; in
  \<open>replyingWorld\<close> every request is answered with \<open>sampleReply\<close>; in
  \<open>garbledWorld\<close> every request is answered with text that is not JSON.
\<close>

definition sampleNow :: int where
  "sampleNow = 1710504000000"

definition msPerDay :: int where
  "msPerDay = 86400000"

definition offlineWorld :: world where
  "offlineWorld =
     \<lparr>now = sampleNow, zone = (\<lambda>t. 0), apiKey = [],
      gateway = (\<lambda>messages systemPrompt. Inl (Error ''Network request failed'')),
      jsonParse = (\<lambda>s. None), freshId = typeName, memoryId = ''lx3k9a0.4f2'',
      isoNow = ''2024-03-15T12:00:00.000Z'', genOrder = [], mashOrder = [], connOrder = [],
      rndOnThisDay = rndZero, rndGem = rndZero, rndTag1 = rndZero, rndTag2 = rndZero,
      rndTag3 = rndZero, rndQuestion = rndZero, rndEncourage = rndZero\<rparr>"

definition failingWorld :: world where
  "failingWorld = offlineWorld\<lparr>apiKey := ''sk-ant-test'', genOrder := [6]\<rparr>"

definition sampleReply :: string where
  \<open>sampleReply =
     ''{"tags": ["Work", "work", "planning"], "summary": "Plans for the week.", ''
     @ ''"suggestedRoom": "Work"}''\<close>

definition replyingWorld :: world where
  "replyingWorld =
     offlineWorld\<lparr>apiKey := ''sk-ant-test'',
       gateway := (\<lambda>messages systemPrompt. Inr sampleReply),
       jsonParse :=
         (\<lambda>s. if s = sampleReply
              then Some (JObj [(''tags'', JArr [JStr ''Work'', JStr ''work'', JStr ''planning'']),
                               (''summary'', JStr ''Plans for the week.''),
                               (''suggestedRoom'', JStr ''Work'')])
              else None)\<rparr>"

definition garbledWorld :: world where
  "garbledWorld =
     offlineWorld\<lparr>apiKey := ''sk-ant-test'',
       gateway := (\<lambda>messages systemPrompt. Inr ''Sure! Here are some tags: work, planning'')\<rparr>"

text \<open>In \<open>oddReplyWorld\<close> the reply is JSON whose \<open>suggestedRoom\<close> is a number.\<close>

definition oddReplyWorld :: world where
  "oddReplyWorld =
     replyingWorld\<lparr>jsonParse :=
       (\<lambda>s. Some (JObj [(''tags'', JArr [JStr ''work'']), (''summary'', JStr ''Plans.''),
                          (''suggestedRoom'', JNum 5)]))\<rparr>"

definition sampleRoom :: Room where
  "sampleRoom =
     \<lparr>room_id = ''r1'', room_name = ''Work & Projects'', room_icon = ''briefcase'',
      room_color = ''#3B82F6'', memoryCount = 0, room_userId = ''local'',
      room_createdAt = sampleNow\<rparr>"

definition sampleMemory :: "string \<Rightarrow> string list \<Rightarrow> int \<Rightarrow> Memory" where
  "sampleMemory i ts t =
     \<lparr>mem_id = i, mem_content = ''a thought about '' @ joinWith '', '' ts, summary = None,
      mem_type = Text, tags = ts, connections = [], roomId = None, createdAt = t,
      updatedAt = t, userId = ''local''\<rparr>"

text \<open>
  \<open>m1\<close> was created on 2023-03-15, 366 days before the sample clock; \<open>m2\<close> three
  days before it. In \<open>twinMemories\<close> every memory carries the same tag and no room, so
  that no memory passes the partner search of the mashup and connection generators.
\<close>

definition sampleMemories :: "Memory list" where
  "sampleMemories =
     [sampleMemory ''m1'' [''travel''] (sampleNow - 366 * msPerDay),
      sampleMemory ''m2'' [''work''] (sampleNow - 3 * msPerDay),
      sampleMemory ''m3'' [''travel'', ''food''] (sampleNow - 20 * msPerDay),
      sampleMemory ''m4'' [] (sampleNow - 1 * msPerDay)]"

definition twinMemories :: "Memory list" where
  "twinMemories =
     [sampleMemory ''a1'' [''work''] (sampleNow - 2 * msPerDay),
      sampleMemory ''a2'' [''work''] (sampleNow - 3 * msPerDay),
      sampleMemory ''a3'' [''work''] (sampleNow - 4 * msPerDay),
      sampleMemory ''a4'' [''work''] (sampleNow - 5 * msPerDay)]"

section \<open>Lemmas\<close>

subsection \<open>Random indices and shuffles\<close>

lemma randIndex_less: "0 < n \<Longrightarrow> randIndex r n < n"
proof transfer
  fix n :: nat and r :: real
  assume n: "0 < n" and r: "0 \<le> r \<and> r < 1"
  then have "r * real n < real n" by simp
  then have "\<lfloor>r * real n\<rfloor> < int n" by (simp add: floor_less_iff)
  then show "nat \<lfloor>r * real n\<rfloor> < n" using n by linarith
qed

lemma randIndex_zero: "randIndex rndZero n = 0"
  by transfer simp

lemma pick_in_set: "xs \<noteq> [] \<Longrightarrow> xs ! randIndex r (length xs) \<in> set xs"
  by (simp add: randIndex_less)

lemma mset_remove_nth:
  assumes "i < length xs"
  shows "add_mset (xs ! i) (mset (take i xs @ drop (Suc i) xs)) = mset xs"
proof -
  have "xs = take i xs @ xs ! i # drop (Suc i) xs"
    using assms by (rule id_take_nth_drop)
  then have "mset xs = mset (take i xs @ xs ! i # drop (Suc i) xs)" by simp
  then show ?thesis by simp
qed

lemma mset_shuffleBy: "mset (shuffleBy ks xs) = mset xs"
proof (induction ks xs rule: shuffleBy.induct)
  case (3 k ks x xs)
  let ?ys = "x # xs"
  let ?i = "k mod length ?ys"
  have i: "?i < length ?ys" by simp
  have "mset (shuffleBy (k # ks) ?ys)
        = add_mset (?ys ! ?i) (mset (shuffleBy ks (take ?i ?ys @ drop (Suc ?i) ?ys)))"
    by (simp add: Let_def del: length_Cons nth_Cons' take_Suc_Cons drop_Suc_Cons)
  also have "\<dots> = add_mset (?ys ! ?i) (mset (take ?i ?ys @ drop (Suc ?i) ?ys))"
    using 3 by (simp del: length_Cons)
  also have "\<dots> = mset ?ys" using i by (rule mset_remove_nth)
  finally show ?case .
qed simp_all

lemma set_shuffleBy: "set (shuffleBy ks xs) = set xs"
  using mset_shuffleBy [of ks xs] by (metis set_mset_mset)

lemma length_shuffleBy: "length (shuffleBy ks xs) = length xs"
  using mset_shuffleBy [of ks xs] by (metis size_mset)

lemma distinct_map_shuffleBy: "distinct (map f (shuffleBy ks xs)) = distinct (map f xs)"
proof -
  have "mset (map f (shuffleBy ks xs)) = mset (map f xs)"
    by (simp add: mset_shuffleBy)
  then show ?thesis by (rule mset_eq_imp_distinct_iff)
qed

lemma shuffleBy_complete: "mset ys = mset xs \<Longrightarrow> \<exists>ks. shuffleBy ks xs = ys"
proof (induction ys arbitrary: xs)
  case Nil
  then show ?case by simp
next
  case (Cons y ys)
  then have "y \<in> set xs" by (metis list.set_intros(1) set_mset_mset)
  then obtain i where i: "i < length xs" and y: "xs ! i = y"
    by (auto simp: in_set_conv_nth)
  let ?rest = "take i xs @ drop (Suc i) xs"
  have "add_mset y (mset ?rest) = mset xs" using mset_remove_nth [OF i] y by simp
  also have "mset xs = add_mset y (mset ys)" using Cons.prems by simp
  finally have "mset ys = mset ?rest" by (simp only: add_mset_add_mset_same_iff)
  then obtain ks where ks: "shuffleBy ks ?rest = ys" using Cons.IH by blast
  obtain x xs' where xs: "xs = x # xs'" using i by (cases xs) auto
  have "shuffleBy (i # ks) (x # xs') = y # ys"
    using i y ks unfolding xs by (simp add: Let_def del: take_Suc_Cons drop_Suc_Cons nth_Cons')
  then show ?case unfolding xs by blast
qed

subsection \<open>The loop\<close>

lemma collect_fst_calls:
  "fst (collect run c gens (acc, calls)) = fst (collect run c gens (acc, calls'))"
  by (induction gens arbitrary: acc calls calls')
     (auto split: sum.splits option.splits)

lemma collect_full: "c \<le> int (length acc) \<Longrightarrow> collect run c gens (acc, calls) = (acc, calls)"
  by (cases gens) auto

lemma collect_length:
  "int (length (fst (collect run c gens (acc, calls)))) \<le> max (int (length acc)) c"
proof (induction gens arbitrary: acc calls)
  case Nil
  then show ?case by simp
next
  case (Cons g gens)
  show ?case
  proof (cases "c \<le> int (length acc)")
    case True
    then show ?thesis by simp
  next
    case False
    have step: "int (length (fst (collect run c gens (acc @ [s], calls @ [g]))))
          \<le> max (int (length acc)) c" for s
      using Cons.IH [of "acc @ [s]" "calls @ [g]"] False by simp
    show ?thesis
      using False Cons.IH [of acc "calls @ [g]"] step
      by (simp split: sum.splits option.splits)
  qed
qed

lemma collect_invariant:
  assumes "\<And>g s. g \<in> set gens \<Longrightarrow> run g = Inr (Some s) \<Longrightarrow> P s"
    and "list_all P acc"
  shows "list_all P (fst (collect run c gens (acc, calls)))"
  using assms
proof (induction gens arbitrary: acc calls)
  case Nil
  then show ?case by simp
next
  case (Cons g gens)
  have tl: "P s" if "g' \<in> set gens" "run g' = Inr (Some s)" for g' s
    using Cons.prems(1) [of g' s] that by simp
  show ?case
  proof (cases "run g")
    case (Inl e)
    then show ?thesis using Cons.IH [OF tl Cons.prems(2)] Cons.prems(2) by simp
  next
    case (Inr r)
    show ?thesis
    proof (cases r)
      case None
      then show ?thesis using Inr Cons.IH [OF tl Cons.prems(2)] Cons.prems(2) by simp
    next
      case (Some s)
      then have "P s" using Inr Cons.prems(1) [of g s] by simp
      then have "list_all P (acc @ [s])" using Cons.prems(2) by simp
      then show ?thesis using Inr Some Cons.IH [OF tl] Cons.prems(2) by simp
    qed
  qed
qed

lemma collect_calls: "set (snd (collect run c gens (acc, calls))) \<subseteq> set calls \<union> set gens"
proof (induction gens arbitrary: acc calls)
  case Nil
  then show ?case by simp
next
  case (Cons g gens)
  have "set (snd (collect run c gens (acc', calls @ [g]))) \<subseteq> set calls \<union> set (g # gens)" for acc'
    using Cons.IH [of acc' "calls @ [g]"] by auto
  then show ?case by (auto split: sum.splits option.splits)
qed

lemma collect_quiet: "collect (quiet run) c gens st = collect run c gens st"
proof (induction gens arbitrary: st)
  case Nil
  then show ?case by (cases st) simp
next
  case (Cons g gens)
  then show ?case by (cases st) (simp add: quiet_def split: sum.splits option.splits)
qed

lemma collect_skip:
  assumes "run g = Inl e"
  shows "fst (collect run c (g # rest) (acc, calls)) = fst (collect run c rest (acc, calls))"
proof (cases "c \<le> int (length acc)")
  case True
  then show ?thesis by (simp add: collect_full)
next
  case False
  then show ?thesis using assms collect_fst_calls [of run c rest acc "calls @ [g]" calls] by simp
qed

subsection \<open>What each generator returns\<close>

lemma makeSurprise_sel [simp]:
  "s_type (makeSurprise w ty t c ids) = ty"
  "relatedMemoryIds (makeSurprise w ty t c ids) = ids"
  "title (makeSurprise w ty t c ids) = t"
  "s_content (makeSurprise w ty t c ids) = c"
  by (simp_all add: makeSurprise_def Let_def)

lemma onThisDayMatches_iff:
  "m \<in> set (onThisDayMatches w memories) \<longleftrightarrow>
     m \<in> set memories \<and> sameDay (zone w) (createdAt m) (now w)
       \<and> 7 \<le> daysBetween (createdAt m) (now w)"
  by (auto simp: onThisDayMatches_def)

lemma findOnThisDay_Some:
  assumes "findOnThisDay w memories = Some s"
  shows "s_type s = On_this_day
         \<and> (\<exists>m \<in> set (onThisDayMatches w memories). relatedMemoryIds s = [mem_id m])"
proof -
  let ?ms = "onThisDayMatches w memories"
  from assms have ne: "?ms \<noteq> []"
    by (auto simp: findOnThisDay_def Let_def split: if_splits)
  let ?m = "?ms ! randIndex (rndOnThisDay w) (length ?ms)"
  have "?m \<in> set ?ms" using ne by (rule pick_in_set)
  moreover from assms ne have "s_type s = On_this_day \<and> relatedMemoryIds s = [mem_id ?m]"
    by (auto simp: findOnThisDay_def Let_def)
  ultimately show ?thesis by blast
qed

lemma findOnThisDay_None: "findOnThisDay w memories = None \<longleftrightarrow> onThisDayMatches w memories = []"
  by (simp add: findOnThisDay_def Let_def)

lemma findForgottenGem_Some:
  assumes "findForgottenGem w memories = Some s"
  shows "s_type s = Forgotten_gem \<and> (\<exists>m \<in> set memories. relatedMemoryIds s = [mem_id m])"
proof -
  let ?old = "sort_key createdAt (filter (\<lambda>m. daysBetween (createdAt m) (now w) > 14) memories)"
  let ?pool = "take (max 1 (length ?old div 3)) ?old"
  let ?m = "?pool ! randIndex (rndGem w) (length ?pool)"
  from assms have ne: "?old \<noteq> []"
    by (auto simp: findForgottenGem_def Let_def split: if_splits)
  then have "?pool \<noteq> []" by simp
  then have "?m \<in> set ?pool" by (rule pick_in_set)
  then have "?m \<in> set ?old" by (rule in_set_takeD)
  then have "?m \<in> set memories" by simp
  moreover from assms ne have "s_type s = Forgotten_gem \<and> relatedMemoryIds s = [mem_id ?m]"
    by (auto simp: findForgottenGem_def Let_def split: if_splits)
  ultimately show ?thesis by blast
qed

lemma findPattern_Some:
  assumes "findPattern w memories = Some s"
  shows "s_type s = Pattern \<and> set (relatedMemoryIds s) \<subseteq> mem_id ` set memories"
proof -
  from assms obtain tag where
    "s_type s = Pattern"
    "relatedMemoryIds s
       = map mem_id (take 3 (filter (\<lambda>m. tag \<in> set (tags m)) (take 20 memories)))"
    by (auto simp: findPattern_def Let_def split: if_splits list.splits)
  moreover have "set (take 3 (filter (\<lambda>m. tag \<in> set (tags m)) (take 20 memories))) \<subseteq> set memories"
    by (meson filter_is_subset set_take_subset subset_trans)
  ultimately show ?thesis by auto
qed

lemma generateNudge_Some:
  assumes "generateNudge w memories rooms = Some s"
  shows "s_type s = Nudge \<and> relatedMemoryIds s = []"
  using assms by (auto simp: generateNudge_def Let_def split: if_splits list.splits)

lemma generateQuestion_Some:
  assumes "generateQuestion w memories = Some s"
  shows "s_type s = Question \<and> relatedMemoryIds s = map mem_id (take 2 memories)"
  using assms by (auto simp: generateQuestion_def Let_def split: if_splits)

lemma generateQuestion_nonempty: "memories \<noteq> [] \<Longrightarrow> \<exists>s. generateQuestion w memories = Some s"
  by (simp add: generateQuestion_def Let_def)

text \<open>The partner of the anchor: found by the search, or the second shuffled memory.\<close>

lemma partner:
  assumes len: "2 \<le> length sh"
    and P: "\<And>m. P m \<Longrightarrow> mem_id m \<noteq> mem_id (sh ! 0)"
  shows "(case find P sh of Some m \<Rightarrow> m | None \<Rightarrow> sh ! 1) \<in> set sh
         \<and> (distinct (map mem_id sh) \<longrightarrow>
              mem_id (case find P sh of Some m \<Rightarrow> m | None \<Rightarrow> sh ! 1) \<noteq> mem_id (sh ! 0))"
proof (cases "find P sh")
  case None
  have "sh ! 1 \<in> set sh" using len by simp
  moreover have "mem_id (sh ! 1) \<noteq> mem_id (sh ! 0)" if "distinct (map mem_id sh)"
  proof -
    have "(map mem_id sh ! 1 = map mem_id sh ! 0) = ((1::nat) = 0)"
      using that len by (intro nth_eq_iff_index_eq) auto
    moreover have "0 < length sh" "1 < length sh" using len by auto
    ultimately show ?thesis by (simp add: nth_map)
  qed
  ultimately show ?thesis using None by simp
next
  case (Some m)
  then have "m \<in> set sh \<and> P m" by (auto simp: find_Some_iff)
  then show ?thesis using Some P by simp
qed

lemma generateMashup_Some:
  assumes "generateMashup w memories = Some s"
  shows "s_type s = Mashup
    \<and> (\<exists>m1 \<in> set memories. \<exists>m2 \<in> set memories. relatedMemoryIds s = [mem_id m1, mem_id m2]
          \<and> (distinct (map mem_id memories) \<longrightarrow> mem_id m1 \<noteq> mem_id m2))"
proof -
  let ?sh = "shuffleBy (mashOrder w) memories"
  let ?m1 = "?sh ! 0"
  let ?P = "\<lambda>m. mem_id m \<noteq> mem_id ?m1 \<and> roomId m \<noteq> roomId ?m1
                  \<and> \<not> list_ex (\<lambda>t. t \<in> set (tags ?m1)) (tags m)"
  let ?m2 = "case find ?P ?sh of Some m \<Rightarrow> m | None \<Rightarrow> ?sh ! 1"
  from assms have len: "4 \<le> length memories"
    by (auto simp: generateMashup_def split: if_splits)
  then have len': "2 \<le> length ?sh" by (simp add: length_shuffleBy)
  have m1: "?m1 \<in> set memories"
    using len' set_shuffleBy [of "mashOrder w" memories] by (metis nth_mem not_numeral_le_zero
        length_greater_0_conv list.size(3))
  have p: "?m2 \<in> set ?sh \<and> (distinct (map mem_id ?sh) \<longrightarrow> mem_id ?m2 \<noteq> mem_id ?m1)"
    using len' by (rule partner) simp
  then have m2: "?m2 \<in> set memories" by (simp add: set_shuffleBy)
  have d: "distinct (map mem_id memories) \<longrightarrow> mem_id ?m1 \<noteq> mem_id ?m2"
    using p by (auto simp: distinct_map_shuffleBy)
  from assms len have "s_type s = Mashup \<and> relatedMemoryIds s = [mem_id ?m1, mem_id ?m2]"
    by (auto simp: generateMashup_def Let_def)
  with m1 m2 d show ?thesis by blast
qed

lemma chat_Inr: "chat w msgs sp = Inr r \<Longrightarrow> isConfigured w"
  by (auto simp: chat_def split: if_splits)

lemma generateAIConnection_Some:
  assumes "generateAIConnection w memories = Inr (Some s)"
  shows "isConfigured w \<and> s_type s = Connection
    \<and> (\<exists>m1 \<in> set memories. \<exists>m2 \<in> set memories. relatedMemoryIds s = [mem_id m1, mem_id m2]
          \<and> (distinct (map mem_id memories) \<longrightarrow> mem_id m1 \<noteq> mem_id m2))"
proof -
  let ?sh = "shuffleBy (connOrder w) memories"
  let ?m1 = "?sh ! 0"
  let ?P = "\<lambda>m. mem_id m \<noteq> mem_id ?m1 \<and> \<not> list_ex (\<lambda>t. t \<in> set (tags ?m1)) (tags m)"
  let ?m2 = "case find ?P ?sh of Some m \<Rightarrow> m | None \<Rightarrow> ?sh ! 1"
  from assms have len: "3 \<le> length memories"
    by (auto simp: generateAIConnection_def split: if_splits)
  then have len': "2 \<le> length ?sh" by (simp add: length_shuffleBy)
  have m1: "?m1 \<in> set memories"
    using len' set_shuffleBy [of "connOrder w" memories] by (metis nth_mem not_numeral_le_zero
        length_greater_0_conv list.size(3))
  have p: "?m2 \<in> set ?sh \<and> (distinct (map mem_id ?sh) \<longrightarrow> mem_id ?m2 \<noteq> mem_id ?m1)"
    using len' by (rule partner) simp
  then have m2: "?m2 \<in> set memories" by (simp add: set_shuffleBy)
  have d: "distinct (map mem_id memories) \<longrightarrow> mem_id ?m1 \<noteq> mem_id ?m2"
    using p by (auto simp: distinct_map_shuffleBy)
  from assms len have "isConfigured w \<and> s_type s = Connection
      \<and> relatedMemoryIds s = [mem_id ?m1, mem_id ?m2]"
    by (auto simp: generateAIConnection_def Let_def split: sum.splits dest: chat_Inr)
  with m1 m2 d show ?thesis by blast
qed

lemma generateAIIdeaSpark_Some:
  assumes "generateAIIdeaSpark w memories = Inr (Some s)"
  shows "isConfigured w \<and> s_type s = Idea_spark
         \<and> relatedMemoryIds s = map mem_id (take 2 memories)"
  using assms
  by (auto simp: generateAIIdeaSpark_def Let_def split: if_splits sum.splits dest: chat_Inr)

lemma invoke_type:
  assumes "invoke w memories rooms g = Inr (Some s)"
  shows "(g = GenerateAIConnection \<or> g = GenerateAIIdeaSpark \<longrightarrow> isConfigured w)
         \<and> (s_type s = Connection \<longrightarrow> g = GenerateAIConnection)
         \<and> (s_type s = Idea_spark \<longrightarrow> g = GenerateAIIdeaSpark)"
  using assms
  by (cases g)
     (auto dest: findOnThisDay_Some findForgottenGem_Some findPattern_Some generateNudge_Some
        generateMashup_Some generateQuestion_Some generateAIConnection_Some
        generateAIIdeaSpark_Some)

lemma invoke_refs:
  assumes "invoke w memories rooms g = Inr (Some s)"
  shows "set (relatedMemoryIds s) \<subseteq> mem_id ` set memories"
proof (cases g)
  case FindOnThisDay
  then show ?thesis using assms findOnThisDay_Some [of w memories s]
    by (auto simp: onThisDayMatches_iff)
next
  case FindForgottenGem
  then show ?thesis using assms findForgottenGem_Some [of w memories s] by auto
next
  case FindPattern
  then show ?thesis using assms findPattern_Some [of w memories s] by auto
next
  case GenerateNudge
  then show ?thesis using assms generateNudge_Some [of w memories rooms s] by auto
next
  case GenerateMashup
  then show ?thesis using assms generateMashup_Some [of w memories s] by auto
next
  case GenerateQuestion
  then show ?thesis using assms generateQuestion_Some [of w memories s]
    by (auto dest: in_set_takeD)
next
  case GenerateAIConnection
  then show ?thesis using assms generateAIConnection_Some [of w memories s] by auto
next
  case GenerateAIIdeaSpark
  then show ?thesis using assms generateAIIdeaSpark_Some [of w memories s]
    by (auto dest: in_set_takeD)
qed

lemma fallback_sel:
  "s_type (generateWelcomeSurprise w) = Idea_spark"
  "relatedMemoryIds (generateWelcomeSurprise w) = []"
  "title (generateWelcomeSurprise w) = ''Welcome to Your Memory Palace''"
  "s_type (generateRandomEncouragement w memories) = Idea_spark"
  "relatedMemoryIds (generateRandomEncouragement w memories) = []"
  by (simp_all add: generateWelcomeSurprise_def generateRandomEncouragement_def Let_def)

text \<open>The batch, in terms of the loop.\<close>

lemma batch_nonempty_memories:
  assumes "memories \<noteq> []"
  obtains gens where
    "\<not> isConfigured w \<longrightarrow>
       set gens = {FindOnThisDay, FindForgottenGem, FindPattern, GenerateNudge,
                   GenerateMashup, GenerateQuestion}"
    "generateSurprisesTraced run w memories rooms c =
       (if fst (collect run c gens ([], [])) = [] then [generateRandomEncouragement w memories]
        else fst (collect run c gens ([], [])),
        snd (collect run c gens ([], [])))"
proof
  let ?gens = "shuffleBy (genOrder w)
          ([FindOnThisDay, FindForgottenGem, FindPattern, GenerateNudge, GenerateMashup,
            GenerateQuestion]
           @ (if isConfigured w then [GenerateAIConnection, GenerateAIIdeaSpark] else []))"
  show "\<not> isConfigured w \<longrightarrow>
       set ?gens = {FindOnThisDay, FindForgottenGem, FindPattern, GenerateNudge,
                    GenerateMashup, GenerateQuestion}"
    by (simp add: set_shuffleBy)
  show "generateSurprisesTraced run w memories rooms c =
       (if fst (collect run c ?gens ([], [])) = [] then [generateRandomEncouragement w memories]
        else fst (collect run c ?gens ([], [])),
        snd (collect run c ?gens ([], [])))"
    using assms
    by (simp add: generateSurprisesTraced_def Let_def split: prod.splits)
qed

lemma batch_empty_memories:
  "generateSurprisesTraced run w [] rooms c = ([generateWelcomeSurprise w], [])"
  by (simp add: generateSurprisesTraced_def)


subsection \<open>The heuristic tagger and the failure paths of classification\<close>

lemma bump_keys:
  "map fst (bump k xs) = (if k \<in> set (map fst xs) then map fst xs else map fst xs @ [k])"
  by (induction xs) (auto split: if_splits)

lemma countWord_keys:
  assumes "distinct (map fst acc)" and "list_all (list_all isLowerLetter) (map fst acc)"
  shows "distinct (map fst (countWord w acc))
   \<and> list_all (list_all isLowerLetter) (map fst (countWord w acc))"
proof -
  define clean where "clean = filter isLowerLetter w"
  have clean: "list_all isLowerLetter clean" by (simp add: clean_def list_all_iff)
  have eq: "countWord w acc
      = (if 3 < length clean \<and> clean \<notin> set stopWords then bump clean acc else acc)"
    by (simp add: countWord_def Let_def clean_def)
  show ?thesis
  proof (cases "3 < length clean \<and> clean \<notin> set stopWords")
    case True
    then have "countWord w acc = bump clean acc" unfolding eq by (rule if_P)
    then show ?thesis
      unfolding bump_keys using assms clean by (simp add: bump_keys)
  next
    case False
    then have "countWord w acc = acc" unfolding eq by (rule if_not_P)
    then show ?thesis using assms by simp
  qed
qed

lemma fold_countWord_keys:
  "distinct (map fst acc) \<Longrightarrow> list_all (list_all isLowerLetter) (map fst acc) \<Longrightarrow>
   distinct (map fst (fold countWord ws acc))
   \<and> list_all (list_all isLowerLetter) (map fst (fold countWord ws acc))"
proof (induction ws arbitrary: acc)
  case Nil
  then show ?case by simp
next
  case (Cons w ws)
  from countWord_keys [OF Cons.prems, of w] show ?case
    by (simp add: Cons.IH)
qed

lemma isLowerLetter_lowerChar:
  assumes "isLowerLetter c"
  shows "lowerChar c = c"
proof -
  have "list_all (\<lambda>l. l \<notin> set ''ABCDEFGHIJKLMNOPQRSTUVWXYZ'') ''abcdefghijklmnopqrstuvwxyz''"
    by code_simp
  then have "c \<notin> set ''ABCDEFGHIJKLMNOPQRSTUVWXYZ''"
    using assms unfolding isLowerLetter_def list_all_iff by blast
  moreover have "fst ` set (zip ''ABCDEFGHIJKLMNOPQRSTUVWXYZ'' ''abcdefghijklmnopqrstuvwxyz'')
      = set ''ABCDEFGHIJKLMNOPQRSTUVWXYZ''"
    by (subst set_map [symmetric], subst map_fst_zip) simp_all
  ultimately have "map_of (zip ''ABCDEFGHIJKLMNOPQRSTUVWXYZ'' ''abcdefghijklmnopqrstuvwxyz'') c = None"
    by (simp only: map_of_eq_None_iff not_False_eq_True)
  then show ?thesis by (simp only: lowerChar_def option.case)
qed

lemma toLowerCase_letters: "list_all isLowerLetter s \<Longrightarrow> toLowerCase s = s"
  by (induction s) (simp_all add: toLowerCase_def isLowerLetter_lowerChar)

lemma extractBasicTags_distinct:
  "distinct (extractBasicTags text) \<and> list_all (list_all isLowerLetter) (extractBasicTags text)"
proof -
  define wc where "wc = fold countWord (splitSpaces [] (toLowerCase text)) []"
  define sorted where "sorted = sort_key (\<lambda>e. - int (snd e)) wc"
  have wc: "distinct (map fst wc) \<and> list_all (list_all isLowerLetter) (map fst wc)"
    unfolding wc_def by (rule fold_countWord_keys) simp_all
  have "mset (map fst sorted) = mset (map fst wc)" by (simp add: sorted_def)
  then have d: "distinct (map fst sorted)"
    using wc mset_eq_imp_distinct_iff by blast
  have "set sorted = set wc" by (simp add: sorted_def)
  then have l: "list_all (list_all isLowerLetter) (map fst sorted)"
    using wc by (simp add: list_all_iff)
  have eq: "extractBasicTags text = take 4 (map fst sorted)"
    by (simp add: extractBasicTags_def Let_def wc_def sorted_def take_map)
  have "distinct (take 4 (map fst sorted))" using d by (rule distinct_take)
  moreover have "list_all (list_all isLowerLetter) (take 4 (map fst sorted))"
  proof -
    have sub: "set (take 4 (map fst sorted)) \<subseteq> set (map fst sorted)"
      by (rule set_take_subset)
    have "\<forall>t \<in> set (map fst sorted). \<forall>c \<in> set t. isLowerLetter c"
      using l by (simp add: list_all_iff)
    with sub have "\<forall>t \<in> set (take 4 (map fst sorted)). \<forall>c \<in> set t. isLowerLetter c"
      by blast
    then show ?thesis unfolding list_all_iff .
  qed
  ultimately show ?thesis by (simp add: eq)
qed

lemma extractBasicTags_lower: "map toLowerCase (extractBasicTags text) = extractBasicTags text"
proof -
  have "list_all (list_all isLowerLetter) (extractBasicTags text)"
    using extractBasicTags_distinct by blast
  then have "\<forall>t \<in> set (extractBasicTags text). toLowerCase t = t"
    by (simp add: list_all_iff toLowerCase_letters)
  then show ?thesis by (simp add: map_idI)
qed

lemma tagStrings_strings: "tagStrings (Some (JArr (map JStr ts))) = ts"
  by (induction ts) simp_all

lemma analyzeMemory_throws:
  "chat w (analysisMessages w text) (Some analysisPrompt) = Inl e \<Longrightarrow> analyzeMemory w text = Inl e"
  by (simp add: analyzeMemory_def Let_def)

lemma analyzeMemory_malformed:
  "chat w (analysisMessages w text) (Some analysisPrompt) = Inr response \<Longrightarrow>
   jsonParse w response = None \<Longrightarrow>
   analyzeMemory w text
     = Inr (JObj [(''tags'', JArr []),
                  (''summary'', JStr (take 100 text @ (if length text > 100 then ''...'' else [])))])"
  by (simp add: analyzeMemory_def Let_def)

lemma classify_heuristic:
  assumes "\<not> isConfigured w \<or> chat w (analysisMessages w text) (Some analysisPrompt) = Inl e"
  shows "classify w rooms text
     = Inr \<lparr>c_tags = Some (JArr (map JStr (extractBasicTags text))), c_summary = None,
            c_roomId = None\<rparr>"
proof (cases "isConfigured w")
  case False
  then show ?thesis by (simp add: classify_def)
next
  case True
  with assms have "analyzeMemory w text = Inl e" by (simp add: analyzeMemory_throws)
  then have "readAnalysis w text = Inl e" by (simp add: readAnalysis_def)
  then show ?thesis using True by (simp add: classify_def)
qed

lemma classify_malformed:
  assumes "chat w (analysisMessages w text) (Some analysisPrompt) = Inr response"
    and "jsonParse w response = None"
  shows "classify w rooms text
     = Inr \<lparr>c_tags = Some (JArr []),
            c_summary = Some (JStr (take 100 text @ (if length text > 100 then ''...'' else []))),
            c_roomId = None\<rparr>"
proof -
  have c: "isConfigured w" using assms(1) by (rule chat_Inr)
  have "readAnalysis w text
      = Inr (Some (JArr []),
             Some (JStr (take 100 text @ (if length text > 100 then ''...'' else []))), None)"
    by (simp add: readAnalysis_def analyzeMemory_malformed [OF assms])
  then show ?thesis using c by (simp add: classify_def)
qed

subsection \<open>The size of the batch\<close>

lemma batch_bounds_any_run:
  "1 \<le> length (generateSurprisesWith run w memories rooms c)
   \<and> int (length (generateSurprisesWith run w memories rooms c)) \<le> max 1 c"
proof (cases "memories = []")
  case True
  then show ?thesis by (simp add: generateSurprisesWith_def batch_empty_memories)
next
  case False
  then obtain gens where eq: "generateSurprisesTraced run w memories rooms c =
       (if fst (collect run c gens ([], [])) = [] then [generateRandomEncouragement w memories]
        else fst (collect run c gens ([], [])),
        snd (collect run c gens ([], [])))"
    by (rule batch_nonempty_memories)
  define b where "b = fst (collect run c gens ([], []))"
  have len: "int (length b) \<le> max 0 c"
    unfolding b_def using collect_length [of run c gens "[]" "[]"] by simp
  have batch: "generateSurprisesWith run w memories rooms c
      = (if b = [] then [generateRandomEncouragement w memories] else b)"
    by (simp add: generateSurprisesWith_def eq b_def)
  show ?thesis
  proof (cases "b = []")
    case True
    then show ?thesis using batch by simp
  next
    case False
    then have "1 \<le> length b" by (cases b) simp_all
    then show ?thesis using batch False len by simp
  qed
qed

subsection \<open>Replies of the gateway that parse\<close>

text \<open>
  A reply that parses is used as it is: its suggested room is matched against the names of
  the rooms, and a suggested room that is not a string makes the room search throw, so
  that the outer \<open>catch\<close> of \<open>saveAsMemory\<close> stores nothing.
\<close>

lemma parsed_reply_room:
  "map_option n_roomId (saveAsMemory replyingWorld [sampleRoom] None ''Plan the work week'' False)
     = Some (Some ''r1'')"
  by code_simp

lemma odd_reply_stores_nothing:
  "saveAsMemory oddReplyWorld [sampleRoom] None ''Plan the work week'' False = None"
  by code_simp

section \<open>The claims\<close>

subsection \<open>The orchestrator\<close>

text \<open>
  C1 (as amended). For an empty memory collection \<open>generateSurprises\<close> returns exactly one
  insight, whatever the count, the rooms and the behaviour of the generators, and invokes no
  generator. That insight is the fixed welcome insight: its title is
  "Welcome to Your Memory Palace", it relates to no memory, and the value of its \<open>type\<close>
  field is \<open>idea_spark\<close> (the union \<open>SurpriseType\<close> has no welcome member).
\<close>

theorem empty_memories_welcome:
  "generateSurprises w [] rooms c = [generateWelcomeSurprise w]
   \<and> generateSurprisesWith run w [] rooms c = [generateWelcomeSurprise w]
   \<and> generatorsInvoked w [] rooms c = []
   \<and> title (generateWelcomeSurprise w) = ''Welcome to Your Memory Palace''
   \<and> typeName (s_type (generateWelcomeSurprise w)) = ''idea_spark''
   \<and> relatedMemoryIds (generateWelcomeSurprise w) = []"
  by (simp add: generateSurprises_def generateSurprisesWith_def generatorsInvoked_def
      batch_empty_memories fallback_sel)

text \<open>As stated, C1 gives the insight the kind "welcome"; the kind the code gives it is not that.\<close>

theorem empty_memories_kind_counterexample:
  "map (\<lambda>s. typeName (s_type s)) (generateSurprises offlineWorld [] [] 3) \<noteq> [''welcome'']"
  by (simp add: generateSurprises_def generateSurprisesWith_def batch_empty_memories fallback_sel)

text \<open>
  C2 (as amended). For every memory collection, every room collection, every behaviour
  \<open>run\<close> of the generators and every outcome of the shuffle, the batch has at least one
  insight and at most \<open>max 1 count\<close>: at most \<open>count\<close> whenever \<open>count\<close> is at
  least 1, and exactly one when \<open>count\<close> is 0 or negative.
\<close>

theorem batch_size_bounds:
  "1 \<le> length (generateSurprisesWith run w memories rooms c)
   \<and> int (length (generateSurprisesWith run w memories rooms c)) \<le> max 1 c
   \<and> 1 \<le> length (generateSurprises w memories rooms c)
   \<and> int (length (generateSurprises w memories rooms c)) \<le> max 1 c"
  using batch_bounds_any_run [of run w memories rooms c]
    batch_bounds_any_run [of "invoke w memories rooms" w memories rooms c]
  by (simp add: generateSurprises_def)

text \<open>As stated, C2 bounds the batch by \<open>count\<close>; with a count of 0 the batch has one insight.\<close>

theorem batch_size_counterexample:
  "sampleMemories \<noteq> []
   \<and> \<not> int (length (generateSurprises offlineWorld sampleMemories [] 0)) \<le> 0"
proof -
  have "length (generateSurprises offlineWorld sampleMemories [] 0) = 1" by code_simp
  moreover have "sampleMemories \<noteq> []" by (simp add: sampleMemories_def)
  ultimately show ?thesis by simp
qed

text \<open>
  C3 (as amended). When the gateway is not configured, neither AI generator is invoked and no
  returned insight has kind \<open>connection\<close>; an insight of kind \<open>idea_spark\<close> is returned
  only as the fixed welcome insight or as the encouragement fallback, both of which carry
  that kind.
\<close>

theorem unconfigured_gateway_kinds:
  assumes "\<not> isConfigured w"
  shows "GenerateAIConnection \<notin> set (generatorsInvoked w memories rooms c)
    \<and> GenerateAIIdeaSpark \<notin> set (generatorsInvoked w memories rooms c)
    \<and> (\<forall>s \<in> set (generateSurprises w memories rooms c).
          s_type s \<noteq> Connection
          \<and> (s_type s = Idea_spark \<longrightarrow>
                s = generateWelcomeSurprise w \<or> s = generateRandomEncouragement w memories))"
proof (cases "memories = []")
  case True
  then show ?thesis
    by (simp add: generateSurprises_def generateSurprisesWith_def generatorsInvoked_def
        batch_empty_memories fallback_sel)
next
  case False
  let ?run = "invoke w memories rooms"
  let ?P = "\<lambda>s. s_type s \<noteq> Connection \<and> s_type s \<noteq> Idea_spark"
  from False obtain gens where
    gens: "\<not> isConfigured w \<longrightarrow>
       set gens = {FindOnThisDay, FindForgottenGem, FindPattern, GenerateNudge,
                   GenerateMashup, GenerateQuestion}"
    and eq: "generateSurprisesTraced ?run w memories rooms c =
       (if fst (collect ?run c gens ([], [])) = [] then [generateRandomEncouragement w memories]
        else fst (collect ?run c gens ([], [])),
        snd (collect ?run c gens ([], [])))"
    by (rule batch_nonempty_memories)
  define b where "b = fst (collect ?run c gens ([], []))"
  have six: "set gens = {FindOnThisDay, FindForgottenGem, FindPattern, GenerateNudge,
      GenerateMashup, GenerateQuestion}"
    using gens assms by simp
  have "set (snd (collect ?run c gens ([], []))) \<subseteq> set [] \<union> set gens"
    by (rule collect_calls)
  then have calls: "GenerateAIConnection \<notin> set (generatorsInvoked w memories rooms c)
      \<and> GenerateAIIdeaSpark \<notin> set (generatorsInvoked w memories rooms c)"
    unfolding generatorsInvoked_def eq six by auto
  have "list_all ?P b"
    unfolding b_def
  proof (rule collect_invariant)
    fix g s
    assume "g \<in> set gens" and "?run g = Inr (Some s)"
    then show "?P s" using invoke_type [of w memories rooms g s] unfolding six by auto
  qed simp
  then have P: "\<forall>s \<in> set b. ?P s" by (simp add: list_all_iff)
  have batch: "generateSurprises w memories rooms c
      = (if b = [] then [generateRandomEncouragement w memories] else b)"
    by (simp add: generateSurprises_def generateSurprisesWith_def eq b_def)
  have "\<forall>s \<in> set (generateSurprises w memories rooms c).
          s_type s \<noteq> Connection
          \<and> (s_type s = Idea_spark \<longrightarrow>
                s = generateWelcomeSurprise w \<or> s = generateRandomEncouragement w memories)"
    unfolding batch using P by (cases "b = []") (auto simp: fallback_sel)
  with calls show ?thesis by blast
qed

theorem unconfigured_gateway_kinds_witness:
  "\<not> isConfigured offlineWorld
   \<and> GenerateAIConnection \<notin> set (generatorsInvoked offlineWorld sampleMemories [] 3)
   \<and> GenerateAIIdeaSpark \<notin> set (generatorsInvoked offlineWorld sampleMemories [] 3)
   \<and> map s_type (generateSurprises offlineWorld sampleMemories [] 3)
       = [On_this_day, Mashup, Question]
   \<and> list_all (\<lambda>s. s_type s \<noteq> Connection) (generateSurprises offlineWorld sampleMemories [] 3)"
proof -
  have h: "\<not> isConfigured offlineWorld" by code_simp
  have t: "map s_type (generateSurprises offlineWorld sampleMemories [] 3)
       = [On_this_day, Mashup, Question]" by code_simp
  from unconfigured_gateway_kinds [OF h, of sampleMemories "[]" 3] h t show ?thesis
    by (simp add: list_all_iff)
qed

text \<open>
  As stated, C3 excludes the kind \<open>idea_spark\<close>: with the gateway not configured, the
  welcome insight (no memories) and the encouragement (a count of 0) both have it.
\<close>

theorem unconfigured_gateway_counterexample:
  "\<not> isConfigured offlineWorld
   \<and> map s_type (generateSurprises offlineWorld [] [] 3) = [Idea_spark]
   \<and> map s_type (generateSurprises offlineWorld sampleMemories [] 0) = [Idea_spark]"
proof -
  have "\<not> isConfigured offlineWorld" by code_simp
  moreover have "map s_type (generateSurprises offlineWorld [] [] 3) = [Idea_spark]"
    by code_simp
  moreover have "map s_type (generateSurprises offlineWorld sampleMemories [] 0) = [Idea_spark]"
    by code_simp
  ultimately show ?thesis by simp
qed

text \<open>
  C4. Every id in the \<open>relatedMemoryIds\<close> of every insight \<open>generateSurprises\<close> returns
  is the id of a memory of the collection passed to that call, for every world: every
  outcome of the clock, the random draws, the shuffles and the gateway.
\<close>

theorem related_ids_exist:
  "\<forall>s \<in> set (generateSurprises w memories rooms c).
     set (relatedMemoryIds s) \<subseteq> mem_id ` set memories"
proof (cases "memories = []")
  case True
  then show ?thesis
    by (simp add: generateSurprises_def generateSurprisesWith_def batch_empty_memories fallback_sel)
next
  case False
  let ?run = "invoke w memories rooms"
  let ?P = "\<lambda>s. set (relatedMemoryIds s) \<subseteq> mem_id ` set memories"
  from False obtain gens where
    eq: "generateSurprisesTraced ?run w memories rooms c =
       (if fst (collect ?run c gens ([], [])) = [] then [generateRandomEncouragement w memories]
        else fst (collect ?run c gens ([], [])),
        snd (collect ?run c gens ([], [])))"
    by (rule batch_nonempty_memories)
  define b where "b = fst (collect ?run c gens ([], []))"
  have "list_all ?P b"
    unfolding b_def
  proof (rule collect_invariant)
    fix g s
    assume "?run g = Inr (Some s)"
    then show "?P s" by (rule invoke_refs)
  qed simp
  then have P: "\<forall>s \<in> set b. ?P s" by (simp add: list_all_iff)
  have batch: "generateSurprises w memories rooms c
      = (if b = [] then [generateRandomEncouragement w memories] else b)"
    by (simp add: generateSurprises_def generateSurprisesWith_def eq b_def)
  show ?thesis
    unfolding batch using P by (cases "b = []") (auto simp: fallback_sel)
qed

theorem related_ids_exist_witness:
  "map relatedMemoryIds (generateSurprises offlineWorld sampleMemories [] 3)
     = [[''m1''], [''m1'', ''m2''], [''m1'', ''m2'']]
   \<and> set (concat (map relatedMemoryIds (generateSurprises offlineWorld sampleMemories [] 3)))
       \<subseteq> mem_id ` set sampleMemories"
proof -
  have "map relatedMemoryIds (generateSurprises offlineWorld sampleMemories [] 3)
     = [[''m1''], [''m1'', ''m2''], [''m1'', ''m2'']]" by code_simp
  moreover have "set (concat (map relatedMemoryIds (generateSurprises offlineWorld sampleMemories [] 3)))
       \<subseteq> mem_id ` set sampleMemories"
    using related_ids_exist [of offlineWorld sampleMemories "[]" 3] by auto
  ultimately show ?thesis by simp
qed

text \<open>
  C5. No error of a generator reaches the caller of \<open>generateSurprises\<close>: for every
  behaviour \<open>run\<close> of the generators the batch is the one obtained when every generator
  that throws returns \<open>null\<close> instead, and after a generator that throws the loop goes on
  with the next generator of the shuffled list.
\<close>

theorem failing_generator_skipped:
  "generateSurprisesWith run w memories rooms c
     = generateSurprisesWith (\<lambda>g. case run g of Inl e \<Rightarrow> Inr None | Inr r \<Rightarrow> Inr r)
         w memories rooms c
   \<and> (run gen = Inl e \<longrightarrow>
        fst (collect run c (gen # rest) (surprises, calls))
          = fst (collect run c rest (surprises, calls)))"
proof -
  have "(\<lambda>g. case run g of Inl e \<Rightarrow> Inr None | Inr r \<Rightarrow> Inr r) = quiet run"
    by (simp add: quiet_def fun_eq_iff)
  then have "generateSurprisesWith run w memories rooms c
     = generateSurprisesWith (\<lambda>g. case run g of Inl e \<Rightarrow> Inr None | Inr r \<Rightarrow> Inr r)
         w memories rooms c"
    by (simp add: generateSurprisesWith_def generateSurprisesTraced_def collect_quiet)
  then show ?thesis using collect_skip [of run gen e c rest surprises calls] by blast
qed

theorem failing_generator_skipped_witness:
  "invoke failingWorld sampleMemories [] GenerateAIConnection
     = Inl (Error ''Network request failed'')
   \<and> generatorsInvoked failingWorld sampleMemories [] 3
       = [GenerateAIConnection, FindOnThisDay, FindForgottenGem, FindPattern, GenerateNudge,
          GenerateMashup, GenerateQuestion]
   \<and> map s_type (generateSurprises failingWorld sampleMemories [] 3)
       = [On_this_day, Mashup, Question]
   \<and> fst (collect (invoke failingWorld sampleMemories []) 3
            [GenerateAIConnection, FindOnThisDay, GenerateMashup, GenerateQuestion] ([], []))
       = fst (collect (invoke failingWorld sampleMemories []) 3
                [FindOnThisDay, GenerateMashup, GenerateQuestion] ([], []))"
proof -
  have f: "invoke failingWorld sampleMemories [] GenerateAIConnection
     = Inl (Error ''Network request failed'')" by code_simp
  have i: "generatorsInvoked failingWorld sampleMemories [] 3
       = [GenerateAIConnection, FindOnThisDay, FindForgottenGem, FindPattern, GenerateNudge,
          GenerateMashup, GenerateQuestion]" by code_simp
  have t: "map s_type (generateSurprises failingWorld sampleMemories [] 3)
       = [On_this_day, Mashup, Question]" by code_simp
  from failing_generator_skipped [of "invoke failingWorld sampleMemories []" failingWorld
      sampleMemories "[]" 3 GenerateAIConnection "Error ''Network request failed''"
      "[FindOnThisDay, GenerateMashup, GenerateQuestion]" "[]" "[]"] f i t
  show ?thesis by simp
qed

subsection \<open>Classification\<close>

text \<open>
  C6 (as amended). \<open>saveAsMemory\<close> returns normally on every text: what it stores is
  \<open>None\<close> or a Memory, never an error (\<open>analyzeMemory\<close> itself rejects when the
  completion call throws, and \<open>saveAsMemory\<close> catches that). When the gateway is not configured, or is
  configured and the completion call throws, the classification is the heuristic one:
  the tags are the array \<open>extractBasicTags\<close> computes (possibly empty), and there is
  no summary and no room. When the completion call returns text that is not JSON, the tags
  are the empty array and the summary is the first 100 characters of the content, followed
  by an ellipsis if the content is longer. In each of these cases the Memory is stored
  with those tags and that summary.
\<close>

theorem classification_failure_paths:
  "(chat w (analysisMessages w text) (Some analysisPrompt) = Inl e \<longrightarrow>
      analyzeMemory w text = Inl e)
   \<and> (\<not> isConfigured w \<or> chat w (analysisMessages w text) (Some analysisPrompt) = Inl e \<longrightarrow>
      classify w rooms text
        = Inr \<lparr>c_tags = Some (JArr (map JStr (extractBasicTags text))), c_summary = None,
               c_roomId = None\<rparr>)
   \<and> (chat w (analysisMessages w text) (Some analysisPrompt) = Inr response
        \<and> jsonParse w response = None \<longrightarrow>
      classify w rooms text
        = Inr \<lparr>c_tags = Some (JArr []),
               c_summary = Some (JStr (take 100 text @ (if length text > 100 then ''...'' else []))),
               c_roomId = None\<rparr>)
   \<and> (classify w rooms text = Inr c \<longrightarrow>
        map_option n_tags (saveAsMemory w rooms stateUserId text isVoice) = Some (c_tags c)
        \<and> map_option n_summary (saveAsMemory w rooms stateUserId text isVoice) = Some (c_summary c)
        \<and> map_option n_roomId (saveAsMemory w rooms stateUserId text isVoice) = Some (c_roomId c))"
  using classify_heuristic [of w "text" e rooms] classify_malformed [of w "text" response rooms]
    analyzeMemory_throws [of w "text" e]
  by (auto simp: saveAsMemory_def)

theorem classification_failure_paths_witness:
  "chat failingWorld (analysisMessages failingWorld ''Plan the work week'') (Some analysisPrompt)
     = Inl (Error ''Network request failed'')
   \<and> classify failingWorld [] ''Plan the work week''
       = Inr \<lparr>c_tags = Some (JArr [JStr ''plan'', JStr ''work'', JStr ''week'']), c_summary = None,
              c_roomId = None\<rparr>
   \<and> chat garbledWorld (analysisMessages garbledWorld ''Plan the work week'') (Some analysisPrompt)
       = Inr ''Sure! Here are some tags: work, planning''
   \<and> jsonParse garbledWorld ''Sure! Here are some tags: work, planning'' = None
   \<and> classify garbledWorld [] ''Plan the work week''
       = Inr \<lparr>c_tags = Some (JArr []), c_summary = Some (JStr ''Plan the work week''),
              c_roomId = None\<rparr>
   \<and> map_option n_tags (saveAsMemory garbledWorld [] None ''Plan the work week'' False)
       = Some (Some (JArr []))"
proof -
  let ?t = "''Plan the work week''"
  have f: "chat failingWorld (analysisMessages failingWorld ?t) (Some analysisPrompt)
     = Inl (Error ''Network request failed'')" by code_simp
  have g: "chat garbledWorld (analysisMessages garbledWorld ?t) (Some analysisPrompt)
       = Inr ''Sure! Here are some tags: work, planning''" by code_simp
  have p: "jsonParse garbledWorld ''Sure! Here are some tags: work, planning'' = None" by code_simp
  have x: "extractBasicTags ?t = [''plan'', ''work'', ''week'']" by code_simp
  have l: "\<not> 100 < length ?t" by simp
  note a = classification_failure_paths [of failingWorld "?t" "Error ''Network request failed''" "[]"]
  note b = classification_failure_paths [of garbledWorld "?t" _ "[]"
      "''Sure! Here are some tags: work, planning''"]
  from a f x have 1: "classify failingWorld [] ?t
       = Inr \<lparr>c_tags = Some (JArr [JStr ''plan'', JStr ''work'', JStr ''week'']), c_summary = None,
              c_roomId = None\<rparr>" by simp
  from b g p l have 2: "classify garbledWorld [] ?t
       = Inr \<lparr>c_tags = Some (JArr []), c_summary = Some (JStr ?t), c_roomId = None\<rparr>"
    by simp
  have 3: "map_option n_tags (saveAsMemory garbledWorld [] None ?t False)
       = Some (Some (JArr []))" by code_simp
  from f g p 1 2 3 show ?thesis by simp
qed

text \<open>
  As stated, C6 promises a summary string on every path; with the gateway configured and
  the completion call failing, the stored Memory has no summary.
\<close>

theorem classification_summary_counterexample:
  "isConfigured failingWorld
   \<and> map_option n_summary (saveAsMemory failingWorld [] None ''Plan the work week'' False) = Some None
   \<and> \<not> isString None"
proof -
  have "isConfigured failingWorld" by code_simp
  moreover have "map_option n_summary (saveAsMemory failingWorld [] None ''Plan the work week'' False)
      = Some None" by code_simp
  ultimately show ?thesis by simp
qed

text \<open>
  C7 (as amended). With the gateway not configured, classifying
  "I love hiking on weekends near the lake" yields the tags love, hiking, weekends, near
  (the first four of the five counted words; "love" is not a stop word), no summary and no
  room.
\<close>

theorem hiking_example_classification:
  assumes "\<not> isConfigured w"
  shows "classify w rooms ''I love hiking on weekends near the lake''
     = Inr \<lparr>c_tags = Some (JArr [JStr ''love'', JStr ''hiking'', JStr ''weekends'', JStr ''near'']),
            c_summary = None, c_roomId = None\<rparr>"
proof -
  have "extractBasicTags ''I love hiking on weekends near the lake''
      = [''love'', ''hiking'', ''weekends'', ''near'']" by code_simp
  then show ?thesis using classify_heuristic [of w _ undefined rooms] assms by simp
qed

theorem hiking_example_classification_witness:
  "\<not> isConfigured offlineWorld
   \<and> classify offlineWorld [] ''I love hiking on weekends near the lake''
     = Inr \<lparr>c_tags = Some (JArr [JStr ''love'', JStr ''hiking'', JStr ''weekends'', JStr ''near'']),
            c_summary = None, c_roomId = None\<rparr>"
proof -
  have h: "\<not> isConfigured offlineWorld" by code_simp
  from hiking_example_classification [OF h, of "[]"] h show ?thesis by simp
qed

text \<open>As stated, C7 draws the tags from hiking, weekends, near, lake only.\<close>

theorem hiking_example_counterexample:
  "\<not> set (classifiedTags offlineWorld [] ''I love hiking on weekends near the lake'')
       \<subseteq> {''hiking'', ''weekends'', ''near'', ''lake''}"
proof -
  have "classifiedTags offlineWorld [] ''I love hiking on weekends near the lake''
      = [''love'', ''hiking'', ''weekends'', ''near'']" by code_simp
  then show ?thesis by simp
qed

text \<open>
  C8 (as amended). For every text, the tags of the heuristic tagger are pairwise different,
  also when compared without regard to case, and consist of lower-case letters only; they
  are the tags of the classification whenever the gateway is not configured or its
  completion call throws. (Tags that come from a reply of the gateway are stored as the
  reply has them.)
\<close>

theorem heuristic_tags_normalized:
  "distinct (map toLowerCase (extractBasicTags text))
   \<and> map toLowerCase (extractBasicTags text) = extractBasicTags text
   \<and> list_all (list_all isLowerLetter) (extractBasicTags text)
   \<and> (\<not> isConfigured w \<or> chat w (analysisMessages w text) (Some analysisPrompt) = Inl e \<longrightarrow>
        classifiedTags w rooms text = extractBasicTags text)"
proof -
  have "distinct (extractBasicTags text)" using extractBasicTags_distinct by blast
  then have "distinct (map toLowerCase (extractBasicTags text))"
    by (simp add: extractBasicTags_lower)
  moreover have "classifiedTags w rooms text = extractBasicTags text"
    if "\<not> isConfigured w \<or> chat w (analysisMessages w text) (Some analysisPrompt) = Inl e"
    using classify_heuristic [OF that, of rooms]
    by (simp add: classifiedTags_def tagStrings_strings del: tagStrings.simps)
  moreover have "list_all (list_all isLowerLetter) (extractBasicTags text)"
    using extractBasicTags_distinct by blast
  ultimately show ?thesis by (simp add: extractBasicTags_lower)
qed

theorem heuristic_tags_normalized_witness:
  "\<not> isConfigured offlineWorld
   \<and> classifiedTags offlineWorld [] ''Work WORK work, plans; Plans and more work''
       = [''work'', ''plans'', ''more'']
   \<and> distinct (map toLowerCase (extractBasicTags ''Work WORK work, plans; Plans and more work''))"
proof -
  let ?t = "''Work WORK work, plans; Plans and more work''"
  have h: "\<not> isConfigured offlineWorld" by code_simp
  have x: "extractBasicTags ?t = [''work'', ''plans'', ''more'']" by code_simp
  from heuristic_tags_normalized [of "?t" offlineWorld undefined "[]"] h x show ?thesis by simp
qed

text \<open>
  As stated, C8 covers every gateway response: a reply whose tags are Work, work, planning
  gives tags that are neither lower-case nor free of duplicates.
\<close>

theorem gateway_tags_counterexample:
  "isConfigured replyingWorld
   \<and> classifiedTags replyingWorld [] ''Plan the work week'' = [''Work'', ''work'', ''planning'']
   \<and> \<not> distinct (map toLowerCase (classifiedTags replyingWorld [] ''Plan the work week''))
   \<and> map toLowerCase (classifiedTags replyingWorld [] ''Plan the work week'')
       \<noteq> classifiedTags replyingWorld [] ''Plan the work week''"
proof -
  have c: "isConfigured replyingWorld" by code_simp
  have t: "classifiedTags replyingWorld [] ''Plan the work week'' = [''Work'', ''work'', ''planning'']"
    by code_simp
  have l: "map toLowerCase [''Work'', ''work'', ''planning''] = [''work'', ''work'', ''planning'']"
    by code_simp
  show ?thesis unfolding t l using c by simp
qed

subsection \<open>Single generators\<close>

text \<open>
  C9. The on-this-day generator never selects a memory created fewer than 7 days before
  now (so never one created exactly 3 days ago), whatever its day of the month; a memory of
  the collection created 7 days ago or more (400, say) on today's day of the month and
  month is eligible, and then the generator returns an insight; the memory an insight
  refers to is always an eligible one. (No date lies exactly 400 days before another with
  the same day and month, so the sample memory is 366 days old.)
\<close>

theorem on_this_day_date_rule:
  assumes "m \<in> set memories"
  shows "(daysBetween (createdAt m) (now w) < 7 \<longrightarrow> m \<notin> set (onThisDayMatches w memories))
    \<and> (sameDay (zone w) (createdAt m) (now w) \<and> 7 \<le> daysBetween (createdAt m) (now w) \<longrightarrow>
          m \<in> set (onThisDayMatches w memories) \<and> (\<exists>s. findOnThisDay w memories = Some s))
    \<and> (\<forall>s. findOnThisDay w memories = Some s \<longrightarrow>
          (\<exists>m' \<in> set memories.
             relatedMemoryIds s = [mem_id m'] \<and> sameDay (zone w) (createdAt m') (now w)
             \<and> 7 \<le> daysBetween (createdAt m') (now w)))"
proof (intro conjI impI allI)
  assume "daysBetween (createdAt m) (now w) < 7"
  then show "m \<notin> set (onThisDayMatches w memories)" by (simp add: onThisDayMatches_iff)
next
  assume e: "sameDay (zone w) (createdAt m) (now w) \<and> 7 \<le> daysBetween (createdAt m) (now w)"
  with assms show in_m: "m \<in> set (onThisDayMatches w memories)"
    by (simp add: onThisDayMatches_iff)
  then have "onThisDayMatches w memories \<noteq> []" by auto
  then have "findOnThisDay w memories \<noteq> None" by (simp add: findOnThisDay_None)
  then show "\<exists>s. findOnThisDay w memories = Some s" by auto
next
  fix s
  assume "findOnThisDay w memories = Some s"
  then obtain m' where "m' \<in> set (onThisDayMatches w memories)" "relatedMemoryIds s = [mem_id m']"
    using findOnThisDay_Some [of w memories s] by auto
  then show "\<exists>m' \<in> set memories.
             relatedMemoryIds s = [mem_id m'] \<and> sameDay (zone w) (createdAt m') (now w)
             \<and> 7 \<le> daysBetween (createdAt m') (now w)"
    by (auto simp: onThisDayMatches_iff)
qed

theorem on_this_day_date_rule_witness:
  "sampleMemories ! 1 \<in> set sampleMemories
   \<and> daysBetween (createdAt (sampleMemories ! 1)) (now offlineWorld) = 3
   \<and> sampleMemories ! 1 \<notin> set (onThisDayMatches offlineWorld sampleMemories)
   \<and> sampleMemories ! 0 \<in> set sampleMemories
   \<and> sameDay (zone offlineWorld) (createdAt (sampleMemories ! 0)) (now offlineWorld)
   \<and> daysBetween (createdAt (sampleMemories ! 0)) (now offlineWorld) = 366
   \<and> sampleMemories ! 0 \<in> set (onThisDayMatches offlineWorld sampleMemories)
   \<and> map_option relatedMemoryIds (findOnThisDay offlineWorld sampleMemories) = Some [''m1'']"
proof -
  have len: "length sampleMemories = 4" by (simp add: sampleMemories_def)
  have in1: "sampleMemories ! 1 \<in> set sampleMemories" using len by simp
  have in0: "sampleMemories ! 0 \<in> set sampleMemories" using len by simp
  have d1: "daysBetween (createdAt (sampleMemories ! 1)) (now offlineWorld) = 3" by code_simp
  have d0: "daysBetween (createdAt (sampleMemories ! 0)) (now offlineWorld) = 366" by code_simp
  have s0: "sameDay (zone offlineWorld) (createdAt (sampleMemories ! 0)) (now offlineWorld)"
    by code_simp
  have r: "map_option relatedMemoryIds (findOnThisDay offlineWorld sampleMemories) = Some [''m1'']"
    by code_simp
  show ?thesis
    using on_this_day_date_rule [OF in1, of offlineWorld]
      on_this_day_date_rule [OF in0, of offlineWorld] in1 in0 d1 d0 s0 r
    by simp
qed

text \<open>
  C10. For a memory collection with pairwise distinct ids, every insight of the mashup
  generator and of the connection generator has exactly two related memory ids, and the
  two differ: the fallback to the second shuffled memory never pairs the anchor with
  itself. With at least 4 memories the mashup generator does return an insight.
\<close>

theorem mashup_connection_pair_distinct:
  assumes "distinct (map mem_id memories)"
  shows "(4 \<le> length memories \<longrightarrow> (\<exists>s. generateMashup w memories = Some s))
    \<and> (\<forall>s. generateMashup w memories = Some s \<longrightarrow>
          length (relatedMemoryIds s) = 2 \<and> distinct (relatedMemoryIds s))
    \<and> (\<forall>s. generateAIConnection w memories = Inr (Some s) \<longrightarrow>
          length (relatedMemoryIds s) = 2 \<and> distinct (relatedMemoryIds s))"
proof -
  have produces: "\<exists>s. generateMashup w memories = Some s" if "4 \<le> length memories"
    using that by (simp add: generateMashup_def Let_def)
  have mash: "length (relatedMemoryIds s) = 2 \<and> distinct (relatedMemoryIds s)"
    if "generateMashup w memories = Some s" for s
    using generateMashup_Some [OF that] assms by auto
  have conn: "length (relatedMemoryIds s) = 2 \<and> distinct (relatedMemoryIds s)"
    if "generateAIConnection w memories = Inr (Some s)" for s
    using generateAIConnection_Some [OF that] assms by auto
  from produces mash conn show ?thesis by blast
qed

theorem mashup_connection_pair_distinct_witness:
  "distinct (map mem_id twinMemories) \<and> 4 \<le> length twinMemories
   \<and> map_option relatedMemoryIds (generateMashup offlineWorld twinMemories) = Some [''a1'', ''a2'']
   \<and> map_sum id (map_option relatedMemoryIds) (generateAIConnection replyingWorld twinMemories)
       = Inr (Some [''a1'', ''a2''])
   \<and> length (relatedMemoryIds (the (generateMashup offlineWorld twinMemories))) = 2
   \<and> distinct (relatedMemoryIds (the (generateMashup offlineWorld twinMemories)))"
proof -
  have d: "distinct (map mem_id twinMemories)" by code_simp
  have l: "4 \<le> length twinMemories" by code_simp
  have m: "map_option relatedMemoryIds (generateMashup offlineWorld twinMemories) = Some [''a1'', ''a2'']"
    by code_simp
  have c: "map_sum id (map_option relatedMemoryIds) (generateAIConnection replyingWorld twinMemories)
       = Inr (Some [''a1'', ''a2''])"
    by code_simp
  from mashup_connection_pair_distinct [OF d, of offlineWorld] l
  obtain s where s: "generateMashup offlineWorld twinMemories = Some s" by blast
  with mashup_connection_pair_distinct [OF d, of offlineWorld]
  have "length (relatedMemoryIds s) = 2 \<and> distinct (relatedMemoryIds s)" by blast
  with s d l m c show ?thesis by simp
qed

end
